theory Spec2Isabelle
  imports Complex_Main "HOL-Library.Sublist" "HOL-Library.Monad_Syntax"
begin

section \<open>Python values\<close>

text \<open>
  The values that \<^verbatim>\<open>yaml.safe_load\<close> returns for a configuration document and that a
  JSON column holds: \<^verbatim>\<open>None\<close>, booleans, integers, finite floats (as reals), strings,
  lists, and mappings keyed by strings (an association list; the first binding of a key is
  the one a lookup sees). Left out are the values a configuration file has no use for:
  infinities and not-a-number, binary scalars, timestamps, sets, and mappings with keys
  that are not strings.
\<close>

datatype pyval =
    PNone
  | PBool bool
  | PInt int
  | PFloat real
  | PStr string
  | PList "pyval list"
  | PDict "(string \<times> pyval) list"

section \<open>The schema of \<^verbatim>\<open>src/utils/database.py\<close>\<close>

subsection \<open>Enumerations\<close>

datatype ProcessingStatus =
    PENDING
  | FINGERPRINTING
  | METADATA_LOOKUP
  | ML_SCORING
  | REVIEW_NEEDED
  | ORGANIZING
  | COMPLETED
  | FAILED
  | SKIPPED

datatype MediaType = AUDIO | VIDEO | UNKNOWN

text \<open>\<^verbatim>\<open>ReviewStatus.PENDING\<close> is written \<open>REVIEW_PENDING\<close>: the name \<open>PENDING\<close> is taken by
  \<^verbatim>\<open>ProcessingStatus.PENDING\<close>.\<close>

datatype ReviewStatus = REVIEW_PENDING | APPROVED | REJECTED | CORRECTED

subsection \<open>Mapped classes\<close>

text \<open>
  One record per mapped class, one field per \<^verbatim>\<open>Column\<close>, in the order of the source. A
  field holds the Python attribute of an object of the class: \<open>None\<close> is Python's
  \<^verbatim>\<open>None\<close> (an attribute that was never set reads as \<^verbatim>\<open>None\<close> too), and it is SQL
  \<^verbatim>\<open>NULL\<close> in a stored row. The column \<^verbatim>\<open>id\<close> of every table is the field \<open>row_id\<close> of the
  common ancestor record, and the foreign key \<^verbatim>\<open>media_file_id\<close> of the six child tables is
  the field \<open>media_file_id\<close> of their common ancestor. The other columns carry a prefix for
  their table, because several tables share column names. \<^verbatim>\<open>Float\<close> columns hold reals,
  \<^verbatim>\<open>DateTime\<close> columns a count of seconds, \<^verbatim>\<open>JSON\<close> columns a Python value.
\<close>

type_synonym datetime = nat

record row =
  row_id :: "int option"

record MediaFile = row +
  mf_original_path :: "string option"
  mf_filename :: "string option"
  mf_file_size :: "int option"
  mf_file_hash :: "string option"
  mf_media_type :: "MediaType option"
  mf_status :: "ProcessingStatus option"
  mf_confidence_score :: "real option"
  mf_created_at :: "datetime option"
  mf_updated_at :: "datetime option"
  mf_processed_at :: "datetime option"
  mf_output_path :: "string option"
  mf_usb_device_id :: "string option"
  mf_is_on_usb :: "bool option"
  mf_error_message :: "string option"
  mf_retry_count :: "int option"

record child_row = row +
  media_file_id :: "int option"

record Fingerprint = child_row +
  fp_chromaprint_fingerprint :: "string option"
  fp_chromaprint_duration :: "real option"
  fp_acoustid_id :: "string option"
  fp_acoustid_score :: "real option"
  fp_video_hash :: "string option"
  fp_scene_hashes :: "pyval option"
  fp_duration :: "real option"
  fp_bitrate :: "int option"
  fp_sample_rate :: "int option"
  fp_channels :: "int option"
  fp_codec :: "string option"
  fp_created_at :: "datetime option"

record MediaMetadata = child_row +
  md_title :: "string option"
  md_artist :: "string option"
  md_album :: "string option"
  md_year :: "int option"
  md_genre :: "string option"
  md_musicbrainz_id :: "string option"
  md_musicbrainz_artist_id :: "string option"
  md_musicbrainz_album_id :: "string option"
  md_track_number :: "int option"
  md_disc_number :: "int option"
  md_tmdb_id :: "int option"
  md_imdb_id :: "string option"
  md_season :: "int option"
  md_episode :: "int option"
  md_description :: "string option"
  md_language :: "string option"
  md_country :: "string option"
  md_is_italian :: "bool option"
  md_italian_confidence :: "real option"
  md_artwork_url :: "string option"
  md_artwork_local_path :: "string option"
  md_metadata_source :: "string option"
  md_metadata_quality :: "real option"
  md_created_at :: "datetime option"
  md_updated_at :: "datetime option"

record MLFeatures = child_row +
  feat_mfcc :: "pyval option"
  feat_spectral_centroid :: "pyval option"
  feat_spectral_rolloff :: "pyval option"
  feat_spectral_contrast :: "pyval option"
  feat_zero_crossing_rate :: "pyval option"
  feat_tempo :: "real option"
  feat_chroma :: "pyval option"
  feat_feature_vector :: "pyval option"
  feat_italian_language_features :: "pyval option"
  feat_created_at :: "datetime option"

record MLModel = row +
  model_model_name :: "string option"
  model_model_version :: "string option"
  model_model_type :: "string option"
  model_model_path :: "string option"
  model_accuracy :: "real option"
  model_precision :: "real option"
  model_recall :: "real option"
  model_f1_score :: "real option"
  model_training_samples :: "int option"
  model_features_used :: "pyval option"
  model_hyperparameters :: "pyval option"
  model_is_active :: "bool option"
  model_created_at :: "datetime option"
  model_trained_at :: "datetime option"

record ReviewQueue = child_row +
  rq_review_status :: "ReviewStatus option"
  rq_confidence_score :: "real option"
  rq_reason :: "string option"
  rq_suggested_metadata :: "pyval option"
  rq_corrected_metadata :: "pyval option"
  rq_reviewer_notes :: "string option"
  rq_created_at :: "datetime option"
  rq_reviewed_at :: "datetime option"

record MLFeedback = child_row +
  fb_predicted_metadata :: "pyval option"
  fb_predicted_confidence :: "real option"
  fb_correct_metadata :: "pyval option"
  fb_feedback_type :: "string option"
  fb_used_for_training :: "bool option"
  fb_training_weight :: "real option"
  fb_created_at :: "datetime option"

record ProcessingLog = child_row +
  pl_level :: "string option"
  pl_module :: "string option"
  pl_message :: "string option"
  pl_context :: "pyval option"
  pl_exception_type :: "string option"
  pl_exception_message :: "string option"
  pl_stack_trace :: "string option"
  pl_created_at :: "datetime option"

subsection \<open>The database file\<close>

text \<open>
  A SQLite file holds, for each table of \<^verbatim>\<open>Base.metadata\<close>, either nothing (the table
  has not been created) or its rows in insertion order. The fields are named after
  \<^verbatim>\<open>__tablename__\<close>.
\<close>

record sqlite_db =
  media_files :: "MediaFile list option"
  fingerprints :: "Fingerprint list option"
  media_metadata :: "MediaMetadata list option"
  ml_features :: "MLFeatures list option"
  ml_models :: "MLModel list option"
  review_queue :: "ReviewQueue list option"
  ml_feedback :: "MLFeedback list option"
  processing_logs :: "ProcessingLog list option"

subsection \<open>Exceptions\<close>

text \<open>
  The exceptions the program and its libraries raise, by class. An exception whose text
  the source fixes carries that text (\<^verbatim>\<open>str(e)\<close>); the text of an exception raised inside
  a library is not modelled. \<open>ValidationError\<close> is pydantic's (a subclass of
  \<^verbatim>\<open>ValueError\<close>); \<open>OperationalError\<close>, \<open>IntegrityError\<close> and \<open>NoResultFound\<close> are
  SQLAlchemy's.
\<close>

datatype constraint = NOT_NULL | UNIQUE

datatype exn =
    FileNotFoundError string
  | IsADirectoryError
  | FileExistsError
  | YAMLError
  | TypeError
  | KeyError
  | ValidationError
  | ValueError
  | RuntimeError string
  | OperationalError
  | IntegrityError constraint
  | NoResultFound

subsection \<open>\<^verbatim>\<open>DatabaseManager.create_tables\<close> and \<^verbatim>\<open>drop_tables\<close>\<close>

text \<open>
  \<^verbatim>\<open>Base.metadata.create_all(engine)\<close> checks for each table of the metadata whether it
  exists and creates, empty, the ones that do not. \<^verbatim>\<open>drop_all\<close> drops every table of the
  metadata. \<open>no_tables\<close> is the content of a database file that SQLite has just created.
\<close>

definition create_if_missing :: "'a list option \<Rightarrow> 'a list option" where
  "create_if_missing t = (case t of None \<Rightarrow> Some [] | Some rows \<Rightarrow> Some rows)"

definition no_tables :: sqlite_db where
  "no_tables = \<lparr>media_files = None, fingerprints = None, media_metadata = None,
     ml_features = None, ml_models = None, review_queue = None, ml_feedback = None,
     processing_logs = None\<rparr>"

definition create_tables :: "sqlite_db \<Rightarrow> sqlite_db" where
  "create_tables db = \<lparr>
     media_files = create_if_missing (media_files db),
     fingerprints = create_if_missing (fingerprints db),
     media_metadata = create_if_missing (media_metadata db),
     ml_features = create_if_missing (ml_features db),
     ml_models = create_if_missing (ml_models db),
     review_queue = create_if_missing (review_queue db),
     ml_feedback = create_if_missing (ml_feedback db),
     processing_logs = create_if_missing (processing_logs db)\<rparr>"

definition drop_tables :: "sqlite_db \<Rightarrow> sqlite_db" where
  "drop_tables db = no_tables"

text \<open>The names of the tables that exist in a database file.\<close>

definition name_if_present :: "string \<Rightarrow> 'a option \<Rightarrow> string list" where
  "name_if_present n t = (case t of None \<Rightarrow> [] | Some _ \<Rightarrow> [n])"


subsection \<open>Writing and reading rows through an ORM session\<close>

text \<open>
  The source declares the tables and leaves every operation on them to SQLAlchemy's ORM
  session over SQLite. The operations below are those of a session, with the constraints
  the \<^verbatim>\<open>Column\<close> declarations carry and nothing else:
  \<^item> \<^verbatim>\<open>session.add(obj); session.commit()\<close> inserts. A \<^verbatim>\<open>None\<close> attribute of a column with a
    \<^verbatim>\<open>default\<close> is left out of the \<^verbatim>\<open>INSERT\<close> and takes the default; \<^verbatim>\<open>id\<close>, when \<^verbatim>\<open>None\<close>,
    is one more than the largest id of the table (1 in an empty table). SQLite checks
    \<^verbatim>\<open>NOT NULL\<close> (\<^verbatim>\<open>nullable=False\<close>) first and then uniqueness (\<^verbatim>\<open>primary_key\<close>,
    \<^verbatim>\<open>unique=True\<close>; \<^verbatim>\<open>NULL\<close>s never collide). Foreign keys are not enforced: the engine is
    created without \<^verbatim>\<open>PRAGMA foreign_keys\<close>.
  \<^item> \<^verbatim>\<open>session.get(cls, id)\<close> reads a row by primary key, \<^verbatim>\<open>None\<close> when there is none.
    An update and a delete load their object with \<^verbatim>\<open>Query.one()\<close>, which raises
    \<open>NoResultFound\<close> when there is none.
  \<^item> Assigning attributes of a loaded object and committing updates. Nothing is written
    when no attribute changes; otherwise the constraints of the changed columns are
    checked, and a column with \<^verbatim>\<open>onupdate\<close> that was not assigned takes its \<^verbatim>\<open>onupdate\<close>
    value.
  \<^item> \<^verbatim>\<open>session.delete(obj); session.commit()\<close> deletes a \<^verbatim>\<open>MediaFile\<close>. No
    \<^verbatim>\<open>relationship\<close> of the source sets \<^verbatim>\<open>cascade\<close> and no \<^verbatim>\<open>ForeignKey\<close> sets
    \<^verbatim>\<open>ondelete\<close>, so the session applies its default to the objects related through a
    \<^verbatim>\<open>relationship\<close>: it sets their foreign key to \<^verbatim>\<open>NULL\<close> and keeps them.
  A failed commit is rolled back: the database is returned as it was. \<open>now\<close> is the value
  of \<^verbatim>\<open>datetime.utcnow()\<close> at the commit. A missing table is an \<open>OperationalError\<close>.
\<close>

definition or_default :: "'a option \<Rightarrow> 'a \<Rightarrow> 'a option" where
  "or_default v d = (case v of None \<Rightarrow> Some d | Some x \<Rightarrow> Some x)"

definition next_rowid :: "'a row_scheme list \<Rightarrow> int" where
  "next_rowid rows =
     (let ids = List.map_filter row_id rows in if ids = [] then 1 else Max (set ids) + 1)"

definition taken :: "('r \<Rightarrow> 'v option) \<Rightarrow> 'r list \<Rightarrow> 'v option \<Rightarrow> bool" where
  "taken col rows v = (v \<noteq> None \<and> v \<in> set (map col rows))"

definition changed_to_null :: "'v option \<Rightarrow> 'v option \<Rightarrow> bool" where
  "changed_to_null old new = (new = None \<and> new \<noteq> old)"

definition changed_to_taken :: "('r \<Rightarrow> 'v option) \<Rightarrow> 'r list \<Rightarrow> 'r \<Rightarrow> 'r \<Rightarrow> bool" where
  "changed_to_taken col rows old new = (col new \<noteq> col old \<and> taken col rows (col new))"

definition by_id :: "int \<Rightarrow> 'a row_scheme list \<Rightarrow> 'a row_scheme option" where
  "by_id i rows = find (\<lambda>r. row_id r = Some i) rows"

definition replace_id :: "int \<Rightarrow> 'a row_scheme \<Rightarrow> 'a row_scheme list \<Rightarrow> 'a row_scheme list" where
  "replace_id i new rows = map (\<lambda>r. if row_id r = Some i then new else r) rows"

definition insert_row ::
  "('a row_scheme \<Rightarrow> bool) \<Rightarrow> ('a row_scheme list \<Rightarrow> 'a row_scheme \<Rightarrow> bool) \<Rightarrow>
   'a row_scheme list \<Rightarrow> 'a row_scheme \<Rightarrow> exn + int \<times> 'a row_scheme list" where
  "insert_row null_violation unique_violation rows obj =
     (let i = (case row_id obj of None \<Rightarrow> next_rowid rows | Some j \<Rightarrow> j);
          new = obj\<lparr>row_id := Some i\<rparr>
      in if null_violation new then Inl (IntegrityError NOT_NULL)
         else if unique_violation rows new then Inl (IntegrityError UNIQUE)
         else Inr (i, rows @ [new]))"

subsubsection \<open>\<^verbatim>\<open>media_files\<close>\<close>

definition MediaFile_defaults :: "datetime \<Rightarrow> MediaFile \<Rightarrow> MediaFile" where
  "MediaFile_defaults now obj = obj\<lparr>
     mf_status := or_default (mf_status obj) PENDING,
     mf_confidence_score := or_default (mf_confidence_score obj) 0,
     mf_created_at := or_default (mf_created_at obj) now,
     mf_updated_at := or_default (mf_updated_at obj) now,
     mf_is_on_usb := or_default (mf_is_on_usb obj) False,
     mf_retry_count := or_default (mf_retry_count obj) 0\<rparr>"

definition MediaFile_null_violation :: "MediaFile \<Rightarrow> bool" where
  "MediaFile_null_violation r =
     (mf_original_path r = None \<or> mf_filename r = None \<or> mf_file_size r = None \<or>
      mf_file_hash r = None \<or> mf_media_type r = None)"

definition MediaFile_unique_violation :: "MediaFile list \<Rightarrow> MediaFile \<Rightarrow> bool" where
  "MediaFile_unique_violation rows r =
     (taken row_id rows (row_id r) \<or> taken mf_original_path rows (mf_original_path r) \<or>
      taken mf_file_hash rows (mf_file_hash r))"

definition insert_MediaFile :: "datetime \<Rightarrow> sqlite_db \<Rightarrow> MediaFile \<Rightarrow> (exn + int) \<times> sqlite_db" where
  "insert_MediaFile now db obj =
     (case media_files db of
        None \<Rightarrow> (Inl OperationalError, db)
      | Some rows \<Rightarrow>
          (case insert_row MediaFile_null_violation MediaFile_unique_violation rows
                  (MediaFile_defaults now obj) of
             Inl e \<Rightarrow> (Inl e, db)
           | Inr (i, rows') \<Rightarrow> (Inr i, db\<lparr>media_files := Some rows'\<rparr>)))"

definition get_MediaFile :: "sqlite_db \<Rightarrow> int \<Rightarrow> exn + MediaFile option" where
  "get_MediaFile db i =
     (case media_files db of None \<Rightarrow> Inl OperationalError | Some rows \<Rightarrow> Inr (by_id i rows))"

datatype MediaFile_assign =
    Set_mf_original_path "string option"
  | Set_mf_filename "string option"
  | Set_mf_file_size "int option"
  | Set_mf_file_hash "string option"
  | Set_mf_media_type "MediaType option"
  | Set_mf_status "ProcessingStatus option"
  | Set_mf_confidence_score "real option"
  | Set_mf_created_at "datetime option"
  | Set_mf_updated_at "datetime option"
  | Set_mf_processed_at "datetime option"
  | Set_mf_output_path "string option"
  | Set_mf_usb_device_id "string option"
  | Set_mf_is_on_usb "bool option"
  | Set_mf_error_message "string option"
  | Set_mf_retry_count "int option"

primrec assign_MediaFile :: "MediaFile_assign \<Rightarrow> MediaFile \<Rightarrow> MediaFile" where
  "assign_MediaFile (Set_mf_original_path v) r = r\<lparr>mf_original_path := v\<rparr>"
| "assign_MediaFile (Set_mf_filename v) r = r\<lparr>mf_filename := v\<rparr>"
| "assign_MediaFile (Set_mf_file_size v) r = r\<lparr>mf_file_size := v\<rparr>"
| "assign_MediaFile (Set_mf_file_hash v) r = r\<lparr>mf_file_hash := v\<rparr>"
| "assign_MediaFile (Set_mf_media_type v) r = r\<lparr>mf_media_type := v\<rparr>"
| "assign_MediaFile (Set_mf_status v) r = r\<lparr>mf_status := v\<rparr>"
| "assign_MediaFile (Set_mf_confidence_score v) r = r\<lparr>mf_confidence_score := v\<rparr>"
| "assign_MediaFile (Set_mf_created_at v) r = r\<lparr>mf_created_at := v\<rparr>"
| "assign_MediaFile (Set_mf_updated_at v) r = r\<lparr>mf_updated_at := v\<rparr>"
| "assign_MediaFile (Set_mf_processed_at v) r = r\<lparr>mf_processed_at := v\<rparr>"
| "assign_MediaFile (Set_mf_output_path v) r = r\<lparr>mf_output_path := v\<rparr>"
| "assign_MediaFile (Set_mf_usb_device_id v) r = r\<lparr>mf_usb_device_id := v\<rparr>"
| "assign_MediaFile (Set_mf_is_on_usb v) r = r\<lparr>mf_is_on_usb := v\<rparr>"
| "assign_MediaFile (Set_mf_error_message v) r = r\<lparr>mf_error_message := v\<rparr>"
| "assign_MediaFile (Set_mf_retry_count v) r = r\<lparr>mf_retry_count := v\<rparr>"

definition MediaFile_update_null_violation :: "MediaFile \<Rightarrow> MediaFile \<Rightarrow> bool" where
  "MediaFile_update_null_violation old new =
     (changed_to_null (mf_original_path old) (mf_original_path new) \<or>
      changed_to_null (mf_filename old) (mf_filename new) \<or>
      changed_to_null (mf_file_size old) (mf_file_size new) \<or>
      changed_to_null (mf_file_hash old) (mf_file_hash new) \<or>
      changed_to_null (mf_media_type old) (mf_media_type new))"

definition MediaFile_update_unique_violation :: "MediaFile list \<Rightarrow> MediaFile \<Rightarrow> MediaFile \<Rightarrow> bool" where
  "MediaFile_update_unique_violation rows old new =
     (changed_to_taken mf_original_path rows old new \<or>
      changed_to_taken mf_file_hash rows old new)"

definition MediaFile_onupdate :: "datetime \<Rightarrow> MediaFile \<Rightarrow> MediaFile \<Rightarrow> MediaFile" where
  "MediaFile_onupdate now old new =
     (if mf_updated_at new = mf_updated_at old then new\<lparr>mf_updated_at := Some now\<rparr> else new)"

definition update_MediaFile ::
  "datetime \<Rightarrow> sqlite_db \<Rightarrow> int \<Rightarrow> MediaFile_assign list \<Rightarrow> (exn + unit) \<times> sqlite_db" where
  "update_MediaFile now db i assignments =
     (case media_files db of
        None \<Rightarrow> (Inl OperationalError, db)
      | Some rows \<Rightarrow>
          (case by_id i rows of
             None \<Rightarrow> (Inl NoResultFound, db)
           | Some old \<Rightarrow>
               (let new = fold assign_MediaFile assignments old
                in if new = old then (Inr (), db)
                   else if MediaFile_update_null_violation old new
                     then (Inl (IntegrityError NOT_NULL), db)
                   else if MediaFile_update_unique_violation rows old new
                     then (Inl (IntegrityError UNIQUE), db)
                   else (Inr (), db\<lparr>media_files :=
                           Some (replace_id i (MediaFile_onupdate now old new) rows)\<rparr>))))"

subsubsection \<open>The child tables\<close>

definition child_unique_violation :: "'a child_row_scheme list \<Rightarrow> 'a child_row_scheme \<Rightarrow> bool" where
  "child_unique_violation rows r =
     (taken row_id rows (row_id r) \<or> taken media_file_id rows (media_file_id r))"

definition Fingerprint_defaults :: "datetime \<Rightarrow> Fingerprint \<Rightarrow> Fingerprint" where
  "Fingerprint_defaults now obj = obj\<lparr>fp_created_at := or_default (fp_created_at obj) now\<rparr>"

definition insert_Fingerprint :: "datetime \<Rightarrow> sqlite_db \<Rightarrow> Fingerprint \<Rightarrow> (exn + int) \<times> sqlite_db" where
  "insert_Fingerprint now db obj =
     (case fingerprints db of
        None \<Rightarrow> (Inl OperationalError, db)
      | Some rows \<Rightarrow>
          (case insert_row (\<lambda>r. False) child_unique_violation rows
                  (Fingerprint_defaults now obj) of
             Inl e \<Rightarrow> (Inl e, db)
           | Inr (i, rows') \<Rightarrow> (Inr i, db\<lparr>fingerprints := Some rows'\<rparr>)))"

definition MediaMetadata_defaults :: "datetime \<Rightarrow> MediaMetadata \<Rightarrow> MediaMetadata" where
  "MediaMetadata_defaults now obj = obj\<lparr>
     md_is_italian := or_default (md_is_italian obj) False,
     md_italian_confidence := or_default (md_italian_confidence obj) 0,
     md_metadata_quality := or_default (md_metadata_quality obj) 0,
     md_created_at := or_default (md_created_at obj) now,
     md_updated_at := or_default (md_updated_at obj) now\<rparr>"

definition insert_MediaMetadata ::
  "datetime \<Rightarrow> sqlite_db \<Rightarrow> MediaMetadata \<Rightarrow> (exn + int) \<times> sqlite_db" where
  "insert_MediaMetadata now db obj =
     (case media_metadata db of
        None \<Rightarrow> (Inl OperationalError, db)
      | Some rows \<Rightarrow>
          (case insert_row (\<lambda>r. False) child_unique_violation rows
                  (MediaMetadata_defaults now obj) of
             Inl e \<Rightarrow> (Inl e, db)
           | Inr (i, rows') \<Rightarrow> (Inr i, db\<lparr>media_metadata := Some rows'\<rparr>)))"

definition get_MediaMetadata :: "sqlite_db \<Rightarrow> int \<Rightarrow> exn + MediaMetadata option" where
  "get_MediaMetadata db i =
     (case media_metadata db of None \<Rightarrow> Inl OperationalError | Some rows \<Rightarrow> Inr (by_id i rows))"

datatype MediaMetadata_assign =
    Set_md_media_file_id "int option"
  | Set_md_title "string option"
  | Set_md_artist "string option"
  | Set_md_album "string option"
  | Set_md_year "int option"
  | Set_md_genre "string option"
  | Set_md_musicbrainz_id "string option"
  | Set_md_musicbrainz_artist_id "string option"
  | Set_md_musicbrainz_album_id "string option"
  | Set_md_track_number "int option"
  | Set_md_disc_number "int option"
  | Set_md_tmdb_id "int option"
  | Set_md_imdb_id "string option"
  | Set_md_season "int option"
  | Set_md_episode "int option"
  | Set_md_description "string option"
  | Set_md_language "string option"
  | Set_md_country "string option"
  | Set_md_is_italian "bool option"
  | Set_md_italian_confidence "real option"
  | Set_md_artwork_url "string option"
  | Set_md_artwork_local_path "string option"
  | Set_md_metadata_source "string option"
  | Set_md_metadata_quality "real option"
  | Set_md_created_at "datetime option"
  | Set_md_updated_at "datetime option"

primrec assign_MediaMetadata :: "MediaMetadata_assign \<Rightarrow> MediaMetadata \<Rightarrow> MediaMetadata" where
  "assign_MediaMetadata (Set_md_media_file_id v) r = r\<lparr>media_file_id := v\<rparr>"
| "assign_MediaMetadata (Set_md_title v) r = r\<lparr>md_title := v\<rparr>"
| "assign_MediaMetadata (Set_md_artist v) r = r\<lparr>md_artist := v\<rparr>"
| "assign_MediaMetadata (Set_md_album v) r = r\<lparr>md_album := v\<rparr>"
| "assign_MediaMetadata (Set_md_year v) r = r\<lparr>md_year := v\<rparr>"
| "assign_MediaMetadata (Set_md_genre v) r = r\<lparr>md_genre := v\<rparr>"
| "assign_MediaMetadata (Set_md_musicbrainz_id v) r = r\<lparr>md_musicbrainz_id := v\<rparr>"
| "assign_MediaMetadata (Set_md_musicbrainz_artist_id v) r = r\<lparr>md_musicbrainz_artist_id := v\<rparr>"
| "assign_MediaMetadata (Set_md_musicbrainz_album_id v) r = r\<lparr>md_musicbrainz_album_id := v\<rparr>"
| "assign_MediaMetadata (Set_md_track_number v) r = r\<lparr>md_track_number := v\<rparr>"
| "assign_MediaMetadata (Set_md_disc_number v) r = r\<lparr>md_disc_number := v\<rparr>"
| "assign_MediaMetadata (Set_md_tmdb_id v) r = r\<lparr>md_tmdb_id := v\<rparr>"
| "assign_MediaMetadata (Set_md_imdb_id v) r = r\<lparr>md_imdb_id := v\<rparr>"
| "assign_MediaMetadata (Set_md_season v) r = r\<lparr>md_season := v\<rparr>"
| "assign_MediaMetadata (Set_md_episode v) r = r\<lparr>md_episode := v\<rparr>"
| "assign_MediaMetadata (Set_md_description v) r = r\<lparr>md_description := v\<rparr>"
| "assign_MediaMetadata (Set_md_language v) r = r\<lparr>md_language := v\<rparr>"
| "assign_MediaMetadata (Set_md_country v) r = r\<lparr>md_country := v\<rparr>"
| "assign_MediaMetadata (Set_md_is_italian v) r = r\<lparr>md_is_italian := v\<rparr>"
| "assign_MediaMetadata (Set_md_italian_confidence v) r = r\<lparr>md_italian_confidence := v\<rparr>"
| "assign_MediaMetadata (Set_md_artwork_url v) r = r\<lparr>md_artwork_url := v\<rparr>"
| "assign_MediaMetadata (Set_md_artwork_local_path v) r = r\<lparr>md_artwork_local_path := v\<rparr>"
| "assign_MediaMetadata (Set_md_metadata_source v) r = r\<lparr>md_metadata_source := v\<rparr>"
| "assign_MediaMetadata (Set_md_metadata_quality v) r = r\<lparr>md_metadata_quality := v\<rparr>"
| "assign_MediaMetadata (Set_md_created_at v) r = r\<lparr>md_created_at := v\<rparr>"
| "assign_MediaMetadata (Set_md_updated_at v) r = r\<lparr>md_updated_at := v\<rparr>"

definition MediaMetadata_onupdate :: "datetime \<Rightarrow> MediaMetadata \<Rightarrow> MediaMetadata \<Rightarrow> MediaMetadata" where
  "MediaMetadata_onupdate now old new =
     (if md_updated_at new = md_updated_at old then new\<lparr>md_updated_at := Some now\<rparr> else new)"

definition update_MediaMetadata ::
  "datetime \<Rightarrow> sqlite_db \<Rightarrow> int \<Rightarrow> MediaMetadata_assign list \<Rightarrow> (exn + unit) \<times> sqlite_db" where
  "update_MediaMetadata now db i assignments =
     (case media_metadata db of
        None \<Rightarrow> (Inl OperationalError, db)
      | Some rows \<Rightarrow>
          (case by_id i rows of
             None \<Rightarrow> (Inl NoResultFound, db)
           | Some old \<Rightarrow>
               (let new = fold assign_MediaMetadata assignments old
                in if new = old then (Inr (), db)
                   else if changed_to_taken media_file_id rows old new
                     then (Inl (IntegrityError UNIQUE), db)
                   else (Inr (), db\<lparr>media_metadata :=
                           Some (replace_id i (MediaMetadata_onupdate now old new) rows)\<rparr>))))"

definition MLFeatures_defaults :: "datetime \<Rightarrow> MLFeatures \<Rightarrow> MLFeatures" where
  "MLFeatures_defaults now obj = obj\<lparr>feat_created_at := or_default (feat_created_at obj) now\<rparr>"

definition insert_MLFeatures :: "datetime \<Rightarrow> sqlite_db \<Rightarrow> MLFeatures \<Rightarrow> (exn + int) \<times> sqlite_db" where
  "insert_MLFeatures now db obj =
     (case ml_features db of
        None \<Rightarrow> (Inl OperationalError, db)
      | Some rows \<Rightarrow>
          (case insert_row (\<lambda>r. False) child_unique_violation rows
                  (MLFeatures_defaults now obj) of
             Inl e \<Rightarrow> (Inl e, db)
           | Inr (i, rows') \<Rightarrow> (Inr i, db\<lparr>ml_features := Some rows'\<rparr>)))"

definition ReviewQueue_defaults :: "datetime \<Rightarrow> ReviewQueue \<Rightarrow> ReviewQueue" where
  "ReviewQueue_defaults now obj = obj\<lparr>
     rq_review_status := or_default (rq_review_status obj) REVIEW_PENDING,
     rq_created_at := or_default (rq_created_at obj) now\<rparr>"

definition insert_ReviewQueue :: "datetime \<Rightarrow> sqlite_db \<Rightarrow> ReviewQueue \<Rightarrow> (exn + int) \<times> sqlite_db" where
  "insert_ReviewQueue now db obj =
     (case review_queue db of
        None \<Rightarrow> (Inl OperationalError, db)
      | Some rows \<Rightarrow>
          (case insert_row (\<lambda>r. rq_confidence_score r = None) child_unique_violation rows
                  (ReviewQueue_defaults now obj) of
             Inl e \<Rightarrow> (Inl e, db)
           | Inr (i, rows') \<Rightarrow> (Inr i, db\<lparr>review_queue := Some rows'\<rparr>)))"

subsubsection \<open>Deleting a \<^verbatim>\<open>MediaFile\<close>\<close>

text \<open>
  \<^verbatim>\<open>MediaFile\<close> has five relationships (\<^verbatim>\<open>fingerprint\<close>, \<^verbatim>\<open>media_metadata\<close>,
  \<^verbatim>\<open>ml_features\<close>, \<^verbatim>\<open>review\<close>, \<^verbatim>\<open>processing_logs\<close>), none with a cascade, so the rows
  of those five tables that point to the deleted file get \<^verbatim>\<open>media_file_id = NULL\<close>.
  The update of a \<^verbatim>\<open>media_metadata\<close> row also fires the \<^verbatim>\<open>onupdate\<close> of its
  \<^verbatim>\<open>updated_at\<close>. \<^verbatim>\<open>MLFeedback\<close> has a foreign key and no relationship: the session does
  not touch \<^verbatim>\<open>ml_feedback\<close>.
\<close>

definition nullify :: "int \<Rightarrow> 'a child_row_scheme list \<Rightarrow> 'a child_row_scheme list" where
  "nullify i rows =
     map (\<lambda>r. if media_file_id r = Some i then r\<lparr>media_file_id := None\<rparr> else r) rows"

definition nullify_MediaMetadata :: "datetime \<Rightarrow> int \<Rightarrow> MediaMetadata list \<Rightarrow> MediaMetadata list" where
  "nullify_MediaMetadata now i rows =
     map (\<lambda>r. if media_file_id r = Some i
               then r\<lparr>media_file_id := None, md_updated_at := Some now\<rparr> else r) rows"

definition delete_MediaFile :: "datetime \<Rightarrow> sqlite_db \<Rightarrow> int \<Rightarrow> (exn + unit) \<times> sqlite_db" where
  "delete_MediaFile now db i =
     (case media_files db of
        None \<Rightarrow> (Inl OperationalError, db)
      | Some mfs \<Rightarrow>
          (case by_id i mfs of
             None \<Rightarrow> (Inl NoResultFound, db)
           | Some obj \<Rightarrow>
               (case (fingerprints db, media_metadata db, ml_features db, review_queue db,
                      processing_logs db) of
                  (Some fps, Some mds, Some feats, Some rqs, Some logs) \<Rightarrow>
                    (Inr (), db\<lparr>
                       media_files := Some (filter (\<lambda>r. row_id r \<noteq> Some i) mfs),
                       fingerprints := Some (nullify i fps),
                       media_metadata := Some (nullify_MediaMetadata now i mds),
                       ml_features := Some (nullify i feats),
                       review_queue := Some (nullify i rqs),
                       processing_logs := Some (nullify i logs)\<rparr>)
                | _ \<Rightarrow> (Inl OperationalError, db))))"

section \<open>Python operations on loaded documents\<close>

text \<open>
  The operators that \<^verbatim>\<open>ConfigManager.load\<close> applies to what \<^verbatim>\<open>yaml.safe_load\<close> returned,
  with a string as key: truth value, \<^verbatim>\<open>key in c\<close>, \<^verbatim>\<open>c[key]\<close> and \<^verbatim>\<open>c[key] = v\<close>. On a
  string \<^verbatim>\<open>in\<close> is the substring test and on a list it is membership; subscripting
  anything but a mapping with a string raises \<^verbatim>\<open>TypeError\<close>, as does \<^verbatim>\<open>in\<close> on a value
  that is not a container.
\<close>

definition py_truthy :: "pyval \<Rightarrow> bool" where
  "py_truthy v =
     (case v of
        PNone \<Rightarrow> False
      | PBool b \<Rightarrow> b
      | PInt n \<Rightarrow> n \<noteq> 0
      | PFloat x \<Rightarrow> x \<noteq> 0
      | PStr s \<Rightarrow> s \<noteq> []
      | PList xs \<Rightarrow> xs \<noteq> []
      | PDict d \<Rightarrow> d \<noteq> [])"

definition py_contains :: "pyval \<Rightarrow> string \<Rightarrow> exn + bool" where
  "py_contains c k =
     (case c of
        PDict d \<Rightarrow> Inr (map_of d k \<noteq> None)
      | PStr s \<Rightarrow> Inr (sublist k s)
      | PList xs \<Rightarrow> Inr (PStr k \<in> set xs)
      | _ \<Rightarrow> Inl TypeError)"

definition py_getitem :: "pyval \<Rightarrow> string \<Rightarrow> exn + pyval" where
  "py_getitem c k =
     (case c of
        PDict d \<Rightarrow> (case map_of d k of None \<Rightarrow> Inl KeyError | Some v \<Rightarrow> Inr v)
      | _ \<Rightarrow> Inl TypeError)"

fun dict_set :: "string \<Rightarrow> pyval \<Rightarrow> (string \<times> pyval) list \<Rightarrow> (string \<times> pyval) list" where
  "dict_set k v [] = [(k, v)]"
| "dict_set k v ((k', v') # d) = (if k' = k then (k, v) # d else (k', v') # dict_set k v d)"

definition py_setitem :: "pyval \<Rightarrow> string \<Rightarrow> pyval \<Rightarrow> exn + pyval" where
  "py_setitem c k v = (case c of PDict d \<Rightarrow> Inr (PDict (dict_set k v d)) | _ \<Rightarrow> Inl TypeError)"

text \<open>Sequencing of steps that may raise.\<close>

definition bind_exn :: "exn + 'a \<Rightarrow> ('a \<Rightarrow> exn + 'b) \<Rightarrow> exn + 'b" where
  "bind_exn m f = (case m of Inl e \<Rightarrow> Inl e | Inr x \<Rightarrow> f x)"

section \<open>The process and its environment\<close>

subsection \<open>Paths\<close>

text \<open>
  \<^verbatim>\<open>str(Path(p))\<close> on POSIX: empty components and \<^verbatim>\<open>.\<close> components are dropped, a single
  leading slash or three and more make the root \<^verbatim>\<open>/\<close>, exactly two make \<^verbatim>\<open>//\<close>, and the
  empty path is \<^verbatim>\<open>.\<close>.
\<close>

fun split_slash :: "string \<Rightarrow> string list" where
  "split_slash [] = [[]]"
| "split_slash (c # cs) =
     (if c = CHR ''/'' then [] # split_slash cs
      else (case split_slash cs of [] \<Rightarrow> [[c]] | w # ws \<Rightarrow> (c # w) # ws))"

fun join_slash :: "string list \<Rightarrow> string" where
  "join_slash [] = []"
| "join_slash [w] = w"
| "join_slash (w # ws) = w @ ''/'' @ join_slash ws"

definition path_root :: "string \<Rightarrow> string" where
  "path_root p =
     (if take 2 p = ''//'' \<and> take 3 p \<noteq> ''///'' then ''//''
      else if take 1 p = ''/'' then ''/'' else [])"

definition path_str :: "string \<Rightarrow> string" where
  "path_str p =
     (let parts = filter (\<lambda>w. w \<noteq> [] \<and> w \<noteq> ''.'') (split_slash p);
          s = path_root p @ join_slash parts
      in if s = [] then ''.'' else s)"

text \<open>\<^verbatim>\<open>str(Path(d) / name)\<close> for a normalised \<open>d\<close> and a plain file name.\<close>

definition path_child :: "string \<Rightarrow> string \<Rightarrow> string" where
  "path_child d name =
     (if d = ''.'' then name else if d = ''/'' \<or> d = ''//'' then d @ name else d @ ''/'' @ name)"

subsection \<open>The state of the process\<close>

text \<open>
  What the program reads and changes, threaded through every function below:
  \<^item> \<open>files\<close>: the regular files by path, as seen from the working directory of the
    process (a relative path is a path relative to it); a file either parses as a YAML
    document or does not;
  \<^item> \<open>dirs\<close>: the directories that exist;
  \<^item> \<open>dbs\<close>: the SQLite files by the path given to \<^verbatim>\<open>create_engine\<close>, and \<open>unopenable\<close>:
    the paths at which SQLite can neither open nor create a file;
  \<^item> \<open>config_manager\<close> and \<open>logger_manager\<close>: the module globals \<^verbatim>\<open>_config_manager\<close> and
    \<^verbatim>\<open>_logger_manager\<close>; \<open>handlers\<close>: the handlers of loguru's global \<^verbatim>\<open>logger\<close>;
    \<open>emitted\<close>: the records logged so far;
  \<^item> \<open>stdout\<close>: the lines printed; \<open>stderr\<close>: for each \<^verbatim>\<open>print(f"<prefix>{e}",
    file=sys.stderr)\<close> the prefix and the exception.
  Failures of the operating system other than the ones named here (permissions, a parent
  that is not a directory, a log file that cannot be opened) are outside the model, and so
  is an interrupt from the keyboard.
\<close>

datatype disk_file = YamlDoc pyval | NotYaml

record AppConfig =
  app_name :: string
  app_version :: string
  app_log_level :: string

record PathsConfig =
  input_folder :: string
  output_folder :: string
  cache_folder :: string
  models_folder :: string
  queue_folder :: string
  log_folder :: string
  database :: string

record AudioFingerprintConfig =
  audio_enabled :: bool
  use_chromaprint :: bool
  use_acoustid :: bool
  extract_features :: bool

record VideoFingerprintConfig =
  video_enabled :: bool
  extract_scenes :: bool
  thumbnail_count :: int

record FingerprintingConfig =
  audio :: AudioFingerprintConfig
  video :: VideoFingerprintConfig

record MusicBrainzConfig =
  musicbrainz_enabled :: bool
  rate_limit :: real

record TMDBConfig =
  tmdb_enabled :: bool
  api_key :: string

record MetadataConfig =
  musicbrainz :: MusicBrainzConfig
  tmdb :: TMDBConfig

record MLConfig =
  ml_enabled :: bool
  ml_confidence_threshold :: real
  retrain_interval :: int
  italian_music_boost :: real

record ReviewConfig =
  review_enabled :: bool
  review_confidence_threshold :: real
  auto_approve_above :: real

record USBConfig =
  usb_enabled :: bool
  auto_detect :: bool
  cache_enabled :: bool
  resume_on_reconnect :: bool

record BackupConfig =
  auto_commit :: bool
  commit_interval :: int
  auto_push :: bool
  push_interval :: int

record Config =
  app :: AppConfig
  paths :: PathsConfig
  fingerprinting :: FingerprintingConfig
  metadata :: MetadataConfig
  ml :: MLConfig
  review :: ReviewConfig
  usb :: USBConfig
  backup :: BackupConfig

record ConfigManager =
  config_path :: string
  secrets_path :: string
  config :: "Config option"

record LoggerManager =
  log_dir :: string
  log_level :: string
  rotation :: string
  retention :: string
  compression :: string

text \<open>A handler of the logger: its sink, its minimum level, the rotation, retention and
  compression of a file sink, and whether its filter lets only audit records pass.\<close>

record handler =
  sink :: string
  handler_level :: string
  handler_rotation :: "string option"
  handler_retention :: "string option"
  handler_compression :: "string option"
  audit_only :: bool

record log_record =
  record_level :: string
  record_message :: string
  record_audit :: bool

record DatabaseManager =
  db_path :: string

record world =
  files :: "string \<Rightarrow> disk_file option"
  dirs :: "string set"
  dbs :: "string \<Rightarrow> sqlite_db option"
  unopenable :: "string set"
  config_manager :: "ConfigManager option"
  logger_manager :: "LoggerManager option"
  handlers :: "handler list"
  emitted :: "log_record list"
  stdout :: "string list"
  stderr :: "(string \<times> exn) list"

text \<open>Sequencing of steps that change the state and may raise: the state at the raise is
  kept.\<close>

definition bind_st ::
  "(world \<Rightarrow> (exn + 'a) \<times> world) \<Rightarrow> ('a \<Rightarrow> world \<Rightarrow> (exn + 'b) \<times> world) \<Rightarrow>
   world \<Rightarrow> (exn + 'b) \<times> world" where
  "bind_st m f w = (case m w of (Inl e, w') \<Rightarrow> (Inl e, w') | (Inr x, w') \<Rightarrow> f x w')"

definition exists_path :: "world \<Rightarrow> string \<Rightarrow> bool" where
  "exists_path w p = (files w p \<noteq> None \<or> p \<in> dirs w)"

text \<open>\<^verbatim>\<open>with open(p) as f: yaml.safe_load(f)\<close>, behind a test that \<open>p\<close> exists: what
  exists and is no file is a directory.\<close>

definition read_yaml :: "world \<Rightarrow> string \<Rightarrow> exn + pyval" where
  "read_yaml w p =
     (case files w p of
        None \<Rightarrow> Inl IsADirectoryError
      | Some NotYaml \<Rightarrow> Inl YAMLError
      | Some (YamlDoc v) \<Rightarrow> Inr v)"

text \<open>\<^verbatim>\<open>Path(p).mkdir(parents=True, exist_ok=True)\<close>: a directory that exists is left
  alone, a file at the path is a \<^verbatim>\<open>FileExistsError\<close>.\<close>

definition mkdir :: "string \<Rightarrow> world \<Rightarrow> (exn + unit) \<times> world" where
  "mkdir p w =
     (if files w (path_str p) \<noteq> None then (Inl FileExistsError, w)
      else (Inr (), w\<lparr>dirs := insert (path_str p) (dirs w)\<rparr>))"

fun mkdirs :: "string list \<Rightarrow> world \<Rightarrow> (exn + unit) \<times> world" where
  "mkdirs [] w = (Inr (), w)"
| "mkdirs (p # ps) w = bind_st (mkdir p) (\<lambda>_. mkdirs ps) w"

section \<open>\<^verbatim>\<open>src/utils/config.py\<close>\<close>

subsection \<open>Validation of the models\<close>

text \<open>
  pydantic validates a mapping against a model field by field: a missing key takes the
  field's default (a required field has none), a present key is converted to the field's
  type and checked against the \<^verbatim>\<open>Field\<close> constraints and the \<^verbatim>\<open>field_validator\<close>. One
  invalid field makes the whole model invalid (\<open>None\<close> below; the caller raises
  \<open>ValidationError\<close>). Keys that name no field are ignored.

  A string field takes strings only. A boolean, integer or float field takes a value of
  its own type (a float field also an integer); what else pydantic's lax mode converts
  (say the string \<^verbatim>\<open>"yes"\<close> for a boolean) is the library's business and a parameter of the
  model: \<open>lax_bool\<close>, \<open>lax_int\<close> and \<open>lax_float\<close> say what such a value converts to, if
  it does. Every result below holds for all three.
\<close>

record lax =
  lax_bool :: "pyval \<Rightarrow> bool option"
  lax_int :: "pyval \<Rightarrow> int option"
  lax_float :: "pyval \<Rightarrow> real option"

definition to_str :: "pyval \<Rightarrow> string option" where
  "to_str v = (case v of PStr s \<Rightarrow> Some s | _ \<Rightarrow> None)"

definition to_bool :: "lax \<Rightarrow> pyval \<Rightarrow> bool option" where
  "to_bool L v = (case v of PBool b \<Rightarrow> Some b | _ \<Rightarrow> lax_bool L v)"

definition to_int :: "lax \<Rightarrow> pyval \<Rightarrow> int option" where
  "to_int L v = (case v of PInt n \<Rightarrow> Some n | _ \<Rightarrow> lax_int L v)"

definition to_float :: "lax \<Rightarrow> pyval \<Rightarrow> real option" where
  "to_float L v =
     (case v of PFloat x \<Rightarrow> Some x | PInt n \<Rightarrow> Some (real_of_int n) | _ \<Rightarrow> lax_float L v)"

definition checked :: "('a \<Rightarrow> bool) \<Rightarrow> 'a option \<Rightarrow> 'a option" where
  "checked ok v = (case v of None \<Rightarrow> None | Some x \<Rightarrow> if ok x then Some x else None)"

definition to_model :: "((string \<times> pyval) list \<Rightarrow> 'a option) \<Rightarrow> pyval \<Rightarrow> 'a option" where
  "to_model validate v = (case v of PDict d \<Rightarrow> validate d | _ \<Rightarrow> None)"

definition model_field :: "(pyval \<Rightarrow> 'a option) \<Rightarrow> (string \<times> pyval) list \<Rightarrow> string \<Rightarrow> 'a \<Rightarrow> 'a option" where
  "model_field conv d name dflt = (case map_of d name of None \<Rightarrow> Some dflt | Some v \<Rightarrow> conv v)"

definition required :: "(pyval \<Rightarrow> 'a option) \<Rightarrow> (string \<times> pyval) list \<Rightarrow> string \<Rightarrow> 'a option" where
  "required conv d name = (case map_of d name of None \<Rightarrow> None | Some v \<Rightarrow> conv v)"

text \<open>\<^verbatim>\<open>AppConfig\<close>; the pattern of \<^verbatim>\<open>log_level\<close> matches the five names and nothing else.\<close>

definition log_level_pattern :: "string \<Rightarrow> bool" where
  "log_level_pattern s = (s \<in> set [''DEBUG'', ''INFO'', ''WARNING'', ''ERROR'', ''CRITICAL''])"

definition validate_AppConfig :: "(string \<times> pyval) list \<Rightarrow> AppConfig option" where
  "validate_AppConfig d =
     do {
       n \<leftarrow> model_field to_str d ''name'' ''Media Organizer'';
       v \<leftarrow> model_field to_str d ''version'' ''1.0.0'';
       l \<leftarrow> model_field (\<lambda>x. checked log_level_pattern (to_str x)) d ''log_level'' ''INFO'';
       Some \<lparr>app_name = n, app_version = v, app_log_level = l\<rparr>
     }"

text \<open>\<^verbatim>\<open>PathsConfig.validate_paths\<close> raises for an empty path and for the two placeholders;
  it runs on \<^verbatim>\<open>input_folder\<close> and on \<^verbatim>\<open>output_folder\<close>.\<close>

definition validate_paths :: "string \<Rightarrow> bool" where
  "validate_paths v = (\<not> (v = [] \<or> v = ''/path/to/input'' \<or> v = ''/path/to/output''))"

definition validate_PathsConfig :: "(string \<times> pyval) list \<Rightarrow> PathsConfig option" where
  "validate_PathsConfig d =
     do {
       i \<leftarrow> required (\<lambda>x. checked validate_paths (to_str x)) d ''input_folder'';
       out \<leftarrow> required (\<lambda>x. checked validate_paths (to_str x)) d ''output_folder'';
       c \<leftarrow> model_field to_str d ''cache_folder'' ''./data/cache'';
       m \<leftarrow> model_field to_str d ''models_folder'' ''./data/models'';
       q \<leftarrow> model_field to_str d ''queue_folder'' ''./data/queue'';
       l \<leftarrow> model_field to_str d ''log_folder'' ''./logs'';
       db \<leftarrow> model_field to_str d ''database'' ''./data/media_organizer.db'';
       Some \<lparr>input_folder = i, output_folder = out, cache_folder = c, models_folder = m,
             queue_folder = q, log_folder = l, database = db\<rparr>
     }"

definition validate_AudioFingerprintConfig ::
  "lax \<Rightarrow> (string \<times> pyval) list \<Rightarrow> AudioFingerprintConfig option" where
  "validate_AudioFingerprintConfig L d =
     do {
       e \<leftarrow> model_field (to_bool L) d ''enabled'' True;
       c \<leftarrow> model_field (to_bool L) d ''use_chromaprint'' True;
       a \<leftarrow> model_field (to_bool L) d ''use_acoustid'' True;
       f \<leftarrow> model_field (to_bool L) d ''extract_features'' True;
       Some \<lparr>audio_enabled = e, use_chromaprint = c, use_acoustid = a, extract_features = f\<rparr>
     }"

definition validate_VideoFingerprintConfig ::
  "lax \<Rightarrow> (string \<times> pyval) list \<Rightarrow> VideoFingerprintConfig option" where
  "validate_VideoFingerprintConfig L d =
     do {
       e \<leftarrow> model_field (to_bool L) d ''enabled'' True;
       s \<leftarrow> model_field (to_bool L) d ''extract_scenes'' True;
       t \<leftarrow> model_field (\<lambda>x. checked (\<lambda>n. 1 \<le> n \<and> n \<le> 10) (to_int L x)) d ''thumbnail_count'' 3;
       Some \<lparr>video_enabled = e, extract_scenes = s, thumbnail_count = t\<rparr>
     }"

definition default_AudioFingerprintConfig :: AudioFingerprintConfig where
  "default_AudioFingerprintConfig =
     \<lparr>audio_enabled = True, use_chromaprint = True, use_acoustid = True, extract_features = True\<rparr>"

definition default_VideoFingerprintConfig :: VideoFingerprintConfig where
  "default_VideoFingerprintConfig =
     \<lparr>video_enabled = True, extract_scenes = True, thumbnail_count = 3\<rparr>"

definition validate_FingerprintingConfig ::
  "lax \<Rightarrow> (string \<times> pyval) list \<Rightarrow> FingerprintingConfig option" where
  "validate_FingerprintingConfig L d =
     do {
       a \<leftarrow> model_field (to_model (validate_AudioFingerprintConfig L)) d ''audio''
              default_AudioFingerprintConfig;
       v \<leftarrow> model_field (to_model (validate_VideoFingerprintConfig L)) d ''video''
              default_VideoFingerprintConfig;
       Some \<lparr>audio = a, video = v\<rparr>
     }"

definition validate_MusicBrainzConfig ::
  "lax \<Rightarrow> (string \<times> pyval) list \<Rightarrow> MusicBrainzConfig option" where
  "validate_MusicBrainzConfig L d =
     do {
       e \<leftarrow> model_field (to_bool L) d ''enabled'' True;
       r \<leftarrow> model_field (\<lambda>x. checked (\<lambda>y. 1 / 2 \<le> y \<and> y \<le> 5) (to_float L x)) d ''rate_limit'' 1;
       Some \<lparr>musicbrainz_enabled = e, rate_limit = r\<rparr>
     }"

definition validate_TMDBConfig :: "lax \<Rightarrow> (string \<times> pyval) list \<Rightarrow> TMDBConfig option" where
  "validate_TMDBConfig L d =
     do {
       e \<leftarrow> model_field (to_bool L) d ''enabled'' True;
       k \<leftarrow> model_field to_str d ''api_key'' [];
       Some \<lparr>tmdb_enabled = e, api_key = k\<rparr>
     }"

definition default_MusicBrainzConfig :: MusicBrainzConfig where
  "default_MusicBrainzConfig = \<lparr>musicbrainz_enabled = True, rate_limit = 1\<rparr>"

definition default_TMDBConfig :: TMDBConfig where
  "default_TMDBConfig = \<lparr>tmdb_enabled = True, api_key = []\<rparr>"

definition validate_MetadataConfig :: "lax \<Rightarrow> (string \<times> pyval) list \<Rightarrow> MetadataConfig option" where
  "validate_MetadataConfig L d =
     do {
       m \<leftarrow> model_field (to_model (validate_MusicBrainzConfig L)) d ''musicbrainz''
              default_MusicBrainzConfig;
       t \<leftarrow> model_field (to_model (validate_TMDBConfig L)) d ''tmdb'' default_TMDBConfig;
       Some \<lparr>musicbrainz = m, tmdb = t\<rparr>
     }"

definition validate_MLConfig :: "lax \<Rightarrow> (string \<times> pyval) list \<Rightarrow> MLConfig option" where
  "validate_MLConfig L d =
     do {
       e \<leftarrow> model_field (to_bool L) d ''enabled'' True;
       c \<leftarrow> model_field (\<lambda>x. checked (\<lambda>y. 0 \<le> y \<and> y \<le> 1) (to_float L x)) d
              ''confidence_threshold'' (75 / 100);
       r \<leftarrow> model_field (\<lambda>x. checked (\<lambda>n. 10 \<le> n) (to_int L x)) d ''retrain_interval'' 100;
       b \<leftarrow> model_field (\<lambda>x. checked (\<lambda>y. 1 \<le> y \<and> y \<le> 2) (to_float L x)) d
              ''italian_music_boost'' (12 / 10);
       Some \<lparr>ml_enabled = e, ml_confidence_threshold = c, retrain_interval = r,
             italian_music_boost = b\<rparr>
     }"

definition validate_ReviewConfig :: "lax \<Rightarrow> (string \<times> pyval) list \<Rightarrow> ReviewConfig option" where
  "validate_ReviewConfig L d =
     do {
       e \<leftarrow> model_field (to_bool L) d ''enabled'' True;
       c \<leftarrow> model_field (\<lambda>x. checked (\<lambda>y. 0 \<le> y \<and> y \<le> 1) (to_float L x)) d
              ''confidence_threshold'' (75 / 100);
       a \<leftarrow> model_field (\<lambda>x. checked (\<lambda>y. 0 \<le> y \<and> y \<le> 1) (to_float L x)) d
              ''auto_approve_above'' (95 / 100);
       Some \<lparr>review_enabled = e, review_confidence_threshold = c, auto_approve_above = a\<rparr>
     }"

definition validate_USBConfig :: "lax \<Rightarrow> (string \<times> pyval) list \<Rightarrow> USBConfig option" where
  "validate_USBConfig L d =
     do {
       e \<leftarrow> model_field (to_bool L) d ''enabled'' True;
       a \<leftarrow> model_field (to_bool L) d ''auto_detect'' True;
       c \<leftarrow> model_field (to_bool L) d ''cache_enabled'' True;
       r \<leftarrow> model_field (to_bool L) d ''resume_on_reconnect'' True;
       Some \<lparr>usb_enabled = e, auto_detect = a, cache_enabled = c, resume_on_reconnect = r\<rparr>
     }"

definition validate_BackupConfig :: "lax \<Rightarrow> (string \<times> pyval) list \<Rightarrow> BackupConfig option" where
  "validate_BackupConfig L d =
     do {
       c \<leftarrow> model_field (to_bool L) d ''auto_commit'' True;
       ci \<leftarrow> model_field (\<lambda>x. checked (\<lambda>n. 1 \<le> n) (to_int L x)) d ''commit_interval'' 10;
       p \<leftarrow> model_field (to_bool L) d ''auto_push'' True;
       pn \<leftarrow> model_field (\<lambda>x. checked (\<lambda>n. 1 \<le> n) (to_int L x)) d ''push_interval'' 50;
       Some \<lparr>auto_commit = c, commit_interval = ci, auto_push = p, push_interval = pn\<rparr>
     }"

definition default_AppConfig :: AppConfig where
  "default_AppConfig =
     \<lparr>app_name = ''Media Organizer'', app_version = ''1.0.0'', app_log_level = ''INFO''\<rparr>"

definition default_FingerprintingConfig :: FingerprintingConfig where
  "default_FingerprintingConfig =
     \<lparr>audio = default_AudioFingerprintConfig, video = default_VideoFingerprintConfig\<rparr>"

definition default_MetadataConfig :: MetadataConfig where
  "default_MetadataConfig = \<lparr>musicbrainz = default_MusicBrainzConfig, tmdb = default_TMDBConfig\<rparr>"

definition default_MLConfig :: MLConfig where
  "default_MLConfig = \<lparr>ml_enabled = True, ml_confidence_threshold = 75 / 100,
     retrain_interval = 100, italian_music_boost = 12 / 10\<rparr>"

definition default_ReviewConfig :: ReviewConfig where
  "default_ReviewConfig = \<lparr>review_enabled = True, review_confidence_threshold = 75 / 100,
     auto_approve_above = 95 / 100\<rparr>"

definition default_USBConfig :: USBConfig where
  "default_USBConfig = \<lparr>usb_enabled = True, auto_detect = True, cache_enabled = True,
     resume_on_reconnect = True\<rparr>"

definition default_BackupConfig :: BackupConfig where
  "default_BackupConfig = \<lparr>auto_commit = True, commit_interval = 10, auto_push = True,
     push_interval = 50\<rparr>"

definition validate_Config :: "lax \<Rightarrow> (string \<times> pyval) list \<Rightarrow> Config option" where
  "validate_Config L d =
     do {
       a \<leftarrow> model_field (to_model validate_AppConfig) d ''app'' default_AppConfig;
       p \<leftarrow> required (to_model validate_PathsConfig) d ''paths'';
       f \<leftarrow> model_field (to_model (validate_FingerprintingConfig L)) d ''fingerprinting''
              default_FingerprintingConfig;
       m \<leftarrow> model_field (to_model (validate_MetadataConfig L)) d ''metadata'' default_MetadataConfig;
       l \<leftarrow> model_field (to_model (validate_MLConfig L)) d ''ml'' default_MLConfig;
       r \<leftarrow> model_field (to_model (validate_ReviewConfig L)) d ''review'' default_ReviewConfig;
       u \<leftarrow> model_field (to_model (validate_USBConfig L)) d ''usb'' default_USBConfig;
       b \<leftarrow> model_field (to_model (validate_BackupConfig L)) d ''backup'' default_BackupConfig;
       Some \<lparr>app = a, paths = p, fingerprinting = f, metadata = m, ml = l, review = r,
             usb = u, backup = b\<rparr>
     }"

text \<open>\<^verbatim>\<open>Config(**config_dict)\<close>: unpacking anything but a mapping is a \<^verbatim>\<open>TypeError\<close>.\<close>

definition Config_init :: "lax \<Rightarrow> pyval \<Rightarrow> exn + Config" where
  "Config_init L config_dict =
     (case config_dict of
        PDict d \<Rightarrow> (case validate_Config L d of None \<Rightarrow> Inl ValidationError | Some c \<Rightarrow> Inr c)
      | _ \<Rightarrow> Inl TypeError)"

subsection \<open>\<^verbatim>\<open>ConfigManager\<close>\<close>

definition ConfigManager_init :: "string \<Rightarrow> ConfigManager" where
  "ConfigManager_init p =
     \<lparr>config_path = path_str p, secrets_path = path_str ''config/secrets.yaml'', config = None\<rparr>"

text \<open>Lines 156 to 161 of \<^verbatim>\<open>load\<close>: the merge of the TMDB key into the main document.\<close>

definition merge_tmdb_api_key :: "pyval \<Rightarrow> pyval \<Rightarrow> exn + pyval" where
  "merge_tmdb_api_key secrets config_dict =
     bind_exn (py_contains secrets ''tmdb_api_key'') (\<lambda>present.
       if \<not> present then Inr config_dict
       else bind_exn (py_getitem secrets ''tmdb_api_key'') (\<lambda>key.
         if \<not> py_truthy key then Inr config_dict
         else
           bind_exn (py_contains config_dict ''metadata'') (\<lambda>has_metadata.
           bind_exn (if has_metadata then Inr config_dict
                     else py_setitem config_dict ''metadata'' (PDict [])) (\<lambda>d1.
           bind_exn (py_getitem d1 ''metadata'') (\<lambda>md.
           bind_exn (py_contains md ''tmdb'') (\<lambda>has_tmdb.
           bind_exn (if has_tmdb then Inr md else py_setitem md ''tmdb'' (PDict [])) (\<lambda>md1.
           bind_exn (py_getitem md1 ''tmdb'') (\<lambda>t.
           bind_exn (py_setitem t ''api_key'' key) (\<lambda>t1.
           bind_exn (py_setitem md1 ''tmdb'' t1) (\<lambda>md2.
           py_setitem d1 ''metadata'' md2))))))))))"

text \<open>\<^verbatim>\<open>load\<close> up to \<^verbatim>\<open>Config(**config_dict)\<close>: it reads the state and does not change
  it.\<close>

definition ConfigManager_read :: "lax \<Rightarrow> ConfigManager \<Rightarrow> world \<Rightarrow> exn + Config" where
  "ConfigManager_read L self w =
     (if \<not> exists_path w (config_path self)
      then Inl (FileNotFoundError (''Configuration file not found: '' @ config_path self))
      else
        bind_exn (read_yaml w (config_path self)) (\<lambda>config_dict.
        bind_exn (if exists_path w (secrets_path self)
                  then bind_exn (read_yaml w (secrets_path self)) (\<lambda>loaded.
                         merge_tmdb_api_key (if py_truthy loaded then loaded else PDict [])
                           config_dict)
                  else Inr config_dict) (\<lambda>merged.
        Config_init L merged)))"

definition create_directories :: "Config \<Rightarrow> world \<Rightarrow> (exn + unit) \<times> world" where
  "create_directories c w =
     mkdirs [cache_folder (paths c), models_folder (paths c), queue_folder (paths c),
             log_folder (paths c)] w"

definition ConfigManager_load ::
  "lax \<Rightarrow> ConfigManager \<Rightarrow> world \<Rightarrow> (exn + Config) \<times> ConfigManager \<times> world" where
  "ConfigManager_load L self w =
     (case ConfigManager_read L self w of
        Inl e \<Rightarrow> (Inl e, self, w)
      | Inr c \<Rightarrow>
          (case create_directories c w of
             (Inl e, w') \<Rightarrow> (Inl e, self\<lparr>config := Some c\<rparr>, w')
           | (Inr _, w') \<Rightarrow> (Inr c, self\<lparr>config := Some c\<rparr>, w')))"

definition ConfigManager_get :: "ConfigManager \<Rightarrow> exn + Config" where
  "ConfigManager_get self =
     (case config self of
        None \<Rightarrow> Inl (RuntimeError ''Configuration not loaded. Call load() first.'')
      | Some c \<Rightarrow> Inr c)"

definition load_config :: "lax \<Rightarrow> string \<Rightarrow> world \<Rightarrow> (exn + Config) \<times> world" where
  "load_config L p w =
     (case ConfigManager_load L (ConfigManager_init p) w of
        (r, self, w') \<Rightarrow> (r, w'\<lparr>config_manager := Some self\<rparr>))"

definition get_config :: "world \<Rightarrow> exn + Config" where
  "get_config w =
     (case config_manager w of
        None \<Rightarrow> Inl (RuntimeError ''Configuration not loaded. Call load_config() first.'')
      | Some m \<Rightarrow> ConfigManager_get m)"

section \<open>\<^verbatim>\<open>src/utils/logger.py\<close>\<close>

text \<open>
  \<^verbatim>\<open>logger.add\<close> with a level name that loguru does not know raises \<^verbatim>\<open>ValueError\<close>. The
  global \<^verbatim>\<open>logger\<close> object is identified with its handlers: \<open>init_logger\<close> and
  \<open>get_logger\<close> return them. \<open>emit\<close> is \<^verbatim>\<open>logger.info\<close>, \<^verbatim>\<open>logger.warning\<close> and the like.
\<close>

definition loguru_levels :: "string list" where
  "loguru_levels = [''TRACE'', ''DEBUG'', ''INFO'', ''SUCCESS'', ''WARNING'', ''ERROR'', ''CRITICAL'']"

definition logger_add :: "handler \<Rightarrow> world \<Rightarrow> (exn + unit) \<times> world" where
  "logger_add h w =
     (if handler_level h \<in> set loguru_levels then (Inr (), w\<lparr>handlers := handlers w @ [h]\<rparr>)
      else (Inl ValueError, w))"

definition logger_remove :: "world \<Rightarrow> (exn + unit) \<times> world" where
  "logger_remove w = (Inr (), w\<lparr>handlers := []\<rparr>)"

definition file_handler :: "LoggerManager \<Rightarrow> string \<Rightarrow> string \<Rightarrow> bool \<Rightarrow> handler" where
  "file_handler self name lvl only_audit =
     \<lparr>sink = path_child (log_dir self) name, handler_level = lvl,
      handler_rotation = Some (rotation self), handler_retention = Some (retention self),
      handler_compression = Some (compression self), audit_only = only_audit\<rparr>"

definition setup_console_handler :: "LoggerManager \<Rightarrow> world \<Rightarrow> (exn + unit) \<times> world" where
  "setup_console_handler self =
     logger_add \<lparr>sink = ''sys.stdout'', handler_level = log_level self, handler_rotation = None,
       handler_retention = None, handler_compression = None, audit_only = False\<rparr>"

definition setup_file_handlers :: "LoggerManager \<Rightarrow> world \<Rightarrow> (exn + unit) \<times> world" where
  "setup_file_handlers self =
     bind_st (logger_add (file_handler self ''app.log'' ''DEBUG'' False)) (\<lambda>_.
     bind_st (logger_add (file_handler self ''error.log'' ''ERROR'' False)) (\<lambda>_.
     logger_add (file_handler self ''audit.log'' ''INFO'' True)))"

definition LoggerManager_init ::
  "string \<Rightarrow> string \<Rightarrow> string \<Rightarrow> string \<Rightarrow> string \<Rightarrow> world \<Rightarrow> (exn + LoggerManager) \<times> world" where
  "LoggerManager_init dir lvl rot ret cmpr =
     (let self = \<lparr>log_dir = path_str dir, log_level = lvl, rotation = rot, retention = ret,
                  compression = cmpr\<rparr>
      in bind_st (mkdir dir) (\<lambda>_.
         bind_st logger_remove (\<lambda>_.
         bind_st (setup_console_handler self) (\<lambda>_.
         bind_st (setup_file_handlers self) (\<lambda>_ w. (Inr self, w))))))"

definition init_logger ::
  "string \<Rightarrow> string \<Rightarrow> string \<Rightarrow> string \<Rightarrow> world \<Rightarrow> (exn + handler list) \<times> world" where
  "init_logger dir lvl rot ret =
     bind_st (LoggerManager_init dir lvl rot ret ''zip'') (\<lambda>m w.
       (Inr (handlers w), w\<lparr>logger_manager := Some m\<rparr>))"

definition get_logger :: "world \<Rightarrow> exn + handler list" where
  "get_logger w =
     (case logger_manager w of
        None \<Rightarrow> Inl (RuntimeError ''Logger not initialized. Call init_logger() first.'')
      | Some m \<Rightarrow> Inr (handlers w))"

definition emit :: "string \<Rightarrow> string \<Rightarrow> bool \<Rightarrow> world \<Rightarrow> (exn + unit) \<times> world" where
  "emit lvl msg is_audit w =
     (Inr (), w\<lparr>emitted := emitted w @
        [\<lparr>record_level = lvl, record_message = msg, record_audit = is_audit\<rparr>]\<rparr>)"

text \<open>\<^verbatim>\<open>audit_log(message)\<close>, without keyword arguments.\<close>

definition audit_log :: "string \<Rightarrow> world \<Rightarrow> (exn + unit) \<times> world" where
  "audit_log message w =
     (case logger_manager w of
        None \<Rightarrow> (Inl (RuntimeError ''Logger not initialized. Call init_logger() first.''), w)
      | Some m \<Rightarrow> emit ''INFO'' message True w)"

section \<open>\<^verbatim>\<open>init_database\<close>\<close>

text \<open>\<^verbatim>\<open>create_engine\<close> opens nothing; \<^verbatim>\<open>create_tables\<close> connects, which creates the
  file when there is none, or fails with \<open>OperationalError\<close> when SQLite cannot open it.\<close>

definition init_database :: "string \<Rightarrow> world \<Rightarrow> (exn + DatabaseManager) \<times> world" where
  "init_database p w =
     (if p \<in> unopenable w then (Inl OperationalError, w)
      else (Inr \<lparr>db_path = p\<rparr>,
            w\<lparr>dbs := (dbs w)(p \<mapsto> create_tables (case dbs w p of None \<Rightarrow> no_tables | Some db \<Rightarrow> db))\<rparr>))"

section \<open>\<^verbatim>\<open>main.py\<close>\<close>

record MediaOrganizer =
  organizer_config :: Config
  organizer_logger :: "handler list"
  organizer_db_manager :: DatabaseManager

definition info :: "string \<Rightarrow> world \<Rightarrow> (exn + unit) \<times> world" where
  "info msg = emit ''INFO'' msg False"

definition warning :: "string \<Rightarrow> world \<Rightarrow> (exn + unit) \<times> world" where
  "warning msg = emit ''WARNING'' msg False"

definition print :: "string \<Rightarrow> world \<Rightarrow> (exn + unit) \<times> world" where
  "print line w = (Inr (), w\<lparr>stdout := stdout w @ [line]\<rparr>)"

definition ensure_folder :: "string \<Rightarrow> string \<Rightarrow> string \<Rightarrow> world \<Rightarrow> (exn + unit) \<times> world" where
  "ensure_folder missing creating p w =
     (if \<not> exists_path w (path_str p)
      then bind_st (warning (missing @ path_str p)) (\<lambda>_.
           bind_st (info creating) (\<lambda>_. mkdir p)) w
      else (Inr (), w))"

definition validate_paths_exist :: "Config \<Rightarrow> world \<Rightarrow> (exn + unit) \<times> world" where
  "validate_paths_exist c =
     bind_st (ensure_folder ''Input folder does not exist: '' ''Creating input folder...''
                (input_folder (paths c))) (\<lambda>_.
     bind_st (ensure_folder ''Output folder does not exist: '' ''Creating output folder...''
                (output_folder (paths c))) (\<lambda>_.
     bind_st (info (''Input folder: '' @ path_str (input_folder (paths c)))) (\<lambda>_.
     info (''Output folder: '' @ path_str (output_folder (paths c))))))"

definition MediaOrganizer_init :: "lax \<Rightarrow> string \<Rightarrow> world \<Rightarrow> (exn + MediaOrganizer) \<times> world" where
  "MediaOrganizer_init L p =
     bind_st (load_config L p) (\<lambda>c.
     bind_st (init_logger (log_folder (paths c)) (app_log_level (app c)) ''10 MB'' ''1 week'')
       (\<lambda>lg.
     bind_st (info (''Starting '' @ app_name (app c) @ '' v'' @ app_version (app c))) (\<lambda>_.
     bind_st (init_database (database (paths c))) (\<lambda>m.
     bind_st (info (''Database initialized: '' @ database (paths c))) (\<lambda>_.
     bind_st (validate_paths_exist c) (\<lambda>_ w.
       (Inr \<lparr>organizer_config = c, organizer_logger = lg, organizer_db_manager = m\<rparr>, w)))))))"

definition shutdown :: "world \<Rightarrow> (exn + unit) \<times> world" where
  "shutdown =
     bind_st (info ''Shutting down Media Organizer...'') (\<lambda>_. info ''Shutdown complete'')"

text \<open>\<^verbatim>\<open>run\<close>: nothing in the \<^verbatim>\<open>try\<close> block raises, so neither \<^verbatim>\<open>except\<close> branch is
  taken and \<^verbatim>\<open>finally\<close> runs \<^verbatim>\<open>shutdown\<close> after it.\<close>

definition run :: "MediaOrganizer \<Rightarrow> world \<Rightarrow> (exn + unit) \<times> world" where
  "run self =
     bind_st (info ''Media Organizer is running...'') (\<lambda>_.
     bind_st (info ''Press Ctrl+C to stop'') (\<lambda>_.
     bind_st (info ''Processing pipeline not yet implemented'') (\<lambda>_.
     bind_st (info ''Ready for Phase 3 implementation'') (\<lambda>_.
     shutdown))))"

text \<open>The parsed command line: \<^verbatim>\<open>--config\<close> (default \<^verbatim>\<open>config/config.yaml\<close>) and
  \<^verbatim>\<open>--init-db\<close>. \<^verbatim>\<open>--version\<close> and a malformed command line leave \<^verbatim>\<open>parse_args\<close>
  through \<^verbatim>\<open>SystemExit\<close>, before \<^verbatim>\<open>main\<close> enters its \<^verbatim>\<open>try\<close>.\<close>

record args =
  arg_config :: string
  arg_init_db :: bool

text \<open>The \<^verbatim>\<open>try\<close> block of \<^verbatim>\<open>main\<close>.\<close>

definition main_body :: "lax \<Rightarrow> args \<Rightarrow> world \<Rightarrow> (exn + unit) \<times> world" where
  "main_body L a =
     (if arg_init_db a
      then bind_st (print ''Initializing database...'') (\<lambda>_.
           bind_st (load_config L (arg_config a)) (\<lambda>c.
           bind_st (init_database (database (paths c))) (\<lambda>_.
           print (''Database initialized: '' @ database (paths c)))))
      else bind_st (MediaOrganizer_init L (arg_config a)) run)"

text \<open>The \<^verbatim>\<open>except\<close> clauses in their order: \<^verbatim>\<open>FileNotFoundError\<close>, then \<^verbatim>\<open>ValueError\<close>
  (pydantic's \<^verbatim>\<open>ValidationError\<close> is one), then \<^verbatim>\<open>Exception\<close>.\<close>

definition handler_prefix :: "exn \<Rightarrow> string" where
  "handler_prefix e =
     (case e of
        FileNotFoundError _ \<Rightarrow> ''Error: ''
      | ValueError \<Rightarrow> ''Configuration error: ''
      | ValidationError \<Rightarrow> ''Configuration error: ''
      | _ \<Rightarrow> ''Fatal error: '')"

definition main :: "lax \<Rightarrow> args \<Rightarrow> world \<Rightarrow> int \<times> world" where
  "main L a w =
     (case main_body L a w of
        (Inr _, w') \<Rightarrow> (0, w')
      | (Inl e, w') \<Rightarrow> (1, w'\<lparr>stderr := stderr w' @ [(handler_prefix e, e)]\<rparr>))"

text \<open>The text that a \<^verbatim>\<open>print\<close> to standard error writes, where the source fixes the
  text of the exception: the prefix, \<^verbatim>\<open>str(e)\<close>, and the line break that \<^verbatim>\<open>print\<close>
  appends.\<close>

definition exn_text :: "exn \<Rightarrow> string option" where
  "exn_text e = (case e of FileNotFoundError s \<Rightarrow> Some s | RuntimeError s \<Rightarrow> Some s | _ \<Rightarrow> None)"

definition printed_text :: "string \<times> exn \<Rightarrow> string option" where
  "printed_text m = map_option (\<lambda>s. fst m @ s @ [CHR 0x0A]) (exn_text (snd m))"

definition line_breaks :: "string \<Rightarrow> nat" where
  "line_breaks s = length (filter (\<lambda>c. c = CHR 0x0A) s)"

section \<open>The transition table of the specification\<close>

text \<open>
  The source has no transition table. This is the one of the specification's section 4.1,
  read generously (every status may go to \<open>FAILED\<close> or \<open>SKIPPED\<close>, and \<open>FAILED\<close> may
  re-enter any status that is not terminal); it only serves to say which status changes
  are "not listed".
\<close>

definition spec_transition_table :: "ProcessingStatus \<Rightarrow> ProcessingStatus \<Rightarrow> bool" where
  "spec_transition_table s t =
     ((s, t) \<in> set [(PENDING, FINGERPRINTING), (FINGERPRINTING, METADATA_LOOKUP),
                    (METADATA_LOOKUP, ML_SCORING), (ML_SCORING, REVIEW_NEEDED),
                    (ML_SCORING, ORGANIZING), (REVIEW_NEEDED, ORGANIZING),
                    (REVIEW_NEEDED, FAILED), (ORGANIZING, COMPLETED)] \<or>
      t = FAILED \<or> t = SKIPPED \<or>
      (s = FAILED \<and> t \<in> set [PENDING, FINGERPRINTING, METADATA_LOOKUP, ML_SCORING,
                                REVIEW_NEEDED, ORGANIZING]))"

section \<open>Example data\<close>

text \<open>The file of the specification's scenario, as a new \<^verbatim>\<open>MediaFile\<close> object, and the
  database after it has been added to a freshly created schema at time 100.\<close>

definition song :: MediaFile where
  "song = \<lparr>row_id = None,
     mf_original_path = Some ''/in/song.mp3'', mf_filename = Some ''song.mp3'',
     mf_file_size = Some 5242880, mf_file_hash = Some ''abc123'', mf_media_type = Some AUDIO,
     mf_status = None, mf_confidence_score = None, mf_created_at = None, mf_updated_at = None,
     mf_processed_at = None, mf_output_path = None, mf_usb_device_id = None,
     mf_is_on_usb = None, mf_error_message = None, mf_retry_count = None\<rparr>"

definition stored_song :: MediaFile where
  "stored_song = song\<lparr>row_id := Some 1, mf_status := Some PENDING,
     mf_confidence_score := Some 0, mf_created_at := Some 100, mf_updated_at := Some 100,
     mf_is_on_usb := Some False, mf_retry_count := Some 0\<rparr>"

definition db_with_song :: sqlite_db where
  "db_with_song = snd (insert_MediaFile 100 (create_tables no_tables) song)"


text \<open>A fingerprint and a metadata object for the file with id 1.\<close>

definition song_fingerprint :: Fingerprint where
  "song_fingerprint = \<lparr>row_id = None, media_file_id = Some 1,
     fp_chromaprint_fingerprint = Some ''AQAA'', fp_chromaprint_duration = Some 215,
     fp_acoustid_id = None, fp_acoustid_score = None, fp_video_hash = None,
     fp_scene_hashes = None, fp_duration = Some 215, fp_bitrate = Some 320000,
     fp_sample_rate = Some 44100, fp_channels = Some 2, fp_codec = Some ''mp3'',
     fp_created_at = None\<rparr>"

definition blank_metadata :: MediaMetadata where
  "blank_metadata = \<lparr>row_id = None, media_file_id = None,
     md_title = None, md_artist = None, md_album = None, md_year = None, md_genre = None,
     md_musicbrainz_id = None, md_musicbrainz_artist_id = None,
     md_musicbrainz_album_id = None, md_track_number = None, md_disc_number = None,
     md_tmdb_id = None, md_imdb_id = None, md_season = None, md_episode = None,
     md_description = None, md_language = None, md_country = None, md_is_italian = None,
     md_italian_confidence = None, md_artwork_url = None, md_artwork_local_path = None,
     md_metadata_source = None, md_metadata_quality = None, md_created_at = None,
     md_updated_at = None\<rparr>"

definition italian_metadata :: "real option \<Rightarrow> MediaMetadata" where
  "italian_metadata c = blank_metadata\<lparr>media_file_id := Some 1, md_is_italian := Some True,
     md_italian_confidence := c\<rparr>"

text \<open>The two child rows as they are stored at times 110 and 120.\<close>

definition stored_fingerprint :: Fingerprint where
  "stored_fingerprint = song_fingerprint\<lparr>row_id := Some 1, fp_created_at := Some 110\<rparr>"

definition stored_metadata :: MediaMetadata where
  "stored_metadata = (italian_metadata (Some (92 / 100)))\<lparr>row_id := Some 1,
     md_metadata_quality := Some 0, md_created_at := Some 120, md_updated_at := Some 120\<rparr>"

definition db_with_children :: sqlite_db where
  "db_with_children =
     snd (insert_MediaMetadata 120 (snd (insert_Fingerprint 110 db_with_song song_fingerprint))
            (italian_metadata (Some (92 / 100))))"

text \<open>
  What the specification calls a secret that is present and not empty: the secrets file
  is a mapping with a true value under \<^verbatim>\<open>tmdb_api_key\<close>. And the value of
  \<^verbatim>\<open>metadata.tmdb.api_key\<close> that a main document alone gives: its string, or the default.
\<close>

definition provided_secret :: "world \<Rightarrow> string \<Rightarrow> pyval option" where
  "provided_secret w p =
     (case files w p of
        Some (YamlDoc (PDict s)) \<Rightarrow>
          (case map_of s ''tmdb_api_key'' of
             None \<Rightarrow> None
           | Some k \<Rightarrow> if py_truthy k then Some k else None)
      | _ \<Rightarrow> None)"

definition config_file_api_key :: "(string \<times> pyval) list \<Rightarrow> string" where
  "config_file_api_key d =
     (case map_of d ''metadata'' of
        Some (PDict m) \<Rightarrow>
          (case map_of m ''tmdb'' of
             Some (PDict t) \<Rightarrow> (case map_of t ''api_key'' of Some (PStr s) \<Rightarrow> s | _ \<Rightarrow> [])
           | _ \<Rightarrow> [])
      | _ \<Rightarrow> [])"

text \<open>A library that converts nothing in lax mode; a process that has not started
  anything, on an empty disk; a main configuration document; and the value it validates
  to, with the API key as a parameter.\<close>

definition strict :: lax where
  "strict = \<lparr>lax_bool = (\<lambda>_. None), lax_int = (\<lambda>_. None), lax_float = (\<lambda>_. None)\<rparr>"

definition empty_world :: world where
  "empty_world = \<lparr>files = (\<lambda>_. None), dirs = {}, dbs = (\<lambda>_. None), unopenable = {},
     config_manager = None, logger_manager = None, handlers = [], emitted = [], stdout = [],
     stderr = []\<rparr>"

definition example_document :: "(string \<times> pyval) list" where
  "example_document =
     [(''paths'', PDict [(''input_folder'', PStr ''/media/in''),
                         (''output_folder'', PStr ''/media/out'')]),
      (''metadata'', PDict [(''tmdb'', PDict [(''api_key'', PStr ''key-of-config'')])])]"

definition example_paths :: PathsConfig where
  "example_paths = \<lparr>input_folder = ''/media/in'', output_folder = ''/media/out'',
     cache_folder = ''./data/cache'', models_folder = ''./data/models'',
     queue_folder = ''./data/queue'', log_folder = ''./logs'',
     database = ''./data/media_organizer.db''\<rparr>"

definition example_config :: "string \<Rightarrow> Config" where
  "example_config key = \<lparr>app = default_AppConfig, paths = example_paths,
     fingerprinting = default_FingerprintingConfig,
     metadata = \<lparr>musicbrainz = default_MusicBrainzConfig,
                  tmdb = \<lparr>tmdb_enabled = True, api_key = key\<rparr>\<rparr>,
     ml = default_MLConfig, review = default_ReviewConfig, usb = default_USBConfig,
     backup = default_BackupConfig\<rparr>"

definition world_with_config :: world where
  "world_with_config =
     empty_world\<lparr>files := [''config/config.yaml'' \<mapsto> YamlDoc (PDict example_document)]\<rparr>"

text \<open>The same disk with a secrets file, in a first and in a second working directory.\<close>

definition world_with_secret :: "string \<Rightarrow> world" where
  "world_with_secret key =
     empty_world\<lparr>files := [''/etc/organizer.yaml'' \<mapsto> YamlDoc (PDict example_document),
        ''config/secrets.yaml'' \<mapsto> YamlDoc (PDict [(''tmdb_api_key'', PStr key)])]\<rparr>"




definition init_db_args :: args where
  "init_db_args = \<lparr>arg_config = ''config/config.yaml'', arg_init_db = True\<rparr>"

definition run_args :: args where
  "run_args = \<lparr>arg_config = ''config/config.yaml'', arg_init_db = False\<rparr>"

text \<open>A command line whose configuration path has a line break in it.\<close>

definition two_line_path :: string where
  "two_line_path = ''conf'' @ [CHR 0x0A] @ ''.yaml''"

text \<open>The value at \<^verbatim>\<open>metadata.tmdb.api_key\<close> of a document, when it has one.\<close>

definition document_api_key :: "pyval \<Rightarrow> pyval option" where
  "document_api_key m =
     (case m of
        PDict d \<Rightarrow>
          (case map_of d ''metadata'' of
             Some (PDict md) \<Rightarrow>
               (case map_of md ''tmdb'' of Some (PDict t) \<Rightarrow> map_of t ''api_key'' | _ \<Rightarrow> None)
           | _ \<Rightarrow> None)
      | _ \<Rightarrow> None)"

text \<open>The four folders that \<^verbatim>\<open>_create_directories\<close> creates, and the state in which a
  run of \<^verbatim>\<open>main\<close> with \<^verbatim>\<open>--init-db\<close> ends when the configuration \<open>c\<close> was loaded from
  \<open>p\<close> and its database could be opened.\<close>

definition folders :: "Config \<Rightarrow> string list" where
  "folders c = [cache_folder (paths c), models_folder (paths c), queue_folder (paths c),
                log_folder (paths c)]"

definition after_init_db :: "string \<Rightarrow> Config \<Rightarrow> world \<Rightarrow> world" where
  "after_init_db p c w = w\<lparr>
     dirs := dirs w \<union> path_str ` set (folders c),
     dbs := (dbs w)(database (paths c) \<mapsto>
              create_tables (case dbs w (database (paths c)) of None \<Rightarrow> no_tables | Some db \<Rightarrow> db)),
     config_manager := Some ((ConfigManager_init p)\<lparr>config := Some c\<rparr>),
     stdout := stdout w @ [''Initializing database...'',
                           ''Database initialized: '' @ database (paths c)]\<rparr>"

text \<open>A step keeps a component \<open>g\<close> of the state when no run of it changes \<open>g\<close>.\<close>

definition keeps :: "(world \<Rightarrow> 'a) \<Rightarrow> (world \<Rightarrow> 'r \<times> world) \<Rightarrow> bool" where
  "keeps g m = (\<forall>w. g (snd (m w)) = g w)"

text \<open>The handlers after \<^verbatim>\<open>init_logger("./logs", "INFO")\<close>, and a main document that
  still has the placeholder for the input folder.\<close>

definition example_handlers :: "handler list" where
  "example_handlers =
     [\<lparr>sink = ''sys.stdout'', handler_level = ''INFO'', handler_rotation = None,
        handler_retention = None, handler_compression = None, audit_only = False\<rparr>,
      \<lparr>sink = ''logs/app.log'', handler_level = ''DEBUG'', handler_rotation = Some ''10 MB'',
        handler_retention = Some ''1 week'', handler_compression = Some ''zip'',
        audit_only = False\<rparr>,
      \<lparr>sink = ''logs/error.log'', handler_level = ''ERROR'', handler_rotation = Some ''10 MB'',
        handler_retention = Some ''1 week'', handler_compression = Some ''zip'',
        audit_only = False\<rparr>,
      \<lparr>sink = ''logs/audit.log'', handler_level = ''INFO'', handler_rotation = Some ''10 MB'',
        handler_retention = Some ''1 week'', handler_compression = Some ''zip'',
        audit_only = True\<rparr>]"

definition placeholder_document :: "(string \<times> pyval) list" where
  "placeholder_document =
     [(''paths'', PDict [(''input_folder'', PStr ''/path/to/input''),
                         (''output_folder'', PStr ''/media/out'')])]"

definition placeholder_world :: world where
  "placeholder_world =
     empty_world\<lparr>files := [''config/config.yaml'' \<mapsto> YamlDoc (PDict placeholder_document)]\<rparr>"

section \<open>Properties of the store\<close>

subsection \<open>Auxiliary facts\<close>


lemma by_id_Some_row_id: "by_id i rows = Some r \<Longrightarrow> row_id r = Some i"
  by (auto simp: by_id_def find_Some_iff)

lemma by_id_append_new:
  "\<not> taken row_id rows (Some i) \<Longrightarrow> row_id new = Some i \<Longrightarrow> by_id i (rows @ [new]) = Some new"
  by (induction rows) (auto simp: by_id_def taken_def)

lemma by_id_replace_id:
  "by_id i rows = Some old \<Longrightarrow> row_id new = Some i \<Longrightarrow> by_id i (replace_id i new rows) = Some new"
  by (induction rows) (auto simp: by_id_def replace_id_def split: if_splits)


lemma insert_row_Inr:
  "insert_row nv uv rows obj = Inr (i, rows') \<Longrightarrow>
     rows' = rows @ [obj\<lparr>row_id := Some i\<rparr>] \<and>
     \<not> nv (obj\<lparr>row_id := Some i\<rparr>) \<and> \<not> uv rows (obj\<lparr>row_id := Some i\<rparr>) \<and>
     i = (case row_id obj of None \<Rightarrow> next_rowid rows | Some j \<Rightarrow> j)"
  by (auto simp: insert_row_def Let_def split: if_splits option.splits)

lemma assign_MediaFile_row_id: "row_id (assign_MediaFile a r) = row_id r"
  by (cases a) simp_all

lemma fold_assign_MediaFile_row_id: "row_id (fold assign_MediaFile as r) = row_id r"
  by (induction as arbitrary: r) (simp_all add: assign_MediaFile_row_id)

lemma assign_MediaMetadata_row_id: "row_id (assign_MediaMetadata a r) = row_id r"
  by (cases a) simp_all

lemma fold_assign_MediaMetadata_row_id: "row_id (fold assign_MediaMetadata as r) = row_id r"
  by (induction as arbitrary: r) (simp_all add: assign_MediaMetadata_row_id)





lemma update_MediaFile_ok:
  assumes "media_files db = Some rows" and "by_id i rows = Some old"
    and "\<not> MediaFile_update_null_violation old (fold assign_MediaFile as old)"
    and "\<not> MediaFile_update_unique_violation rows old (fold assign_MediaFile as old)"
  shows "fst (update_MediaFile now db i as) = Inr () \<and>
         get_MediaFile (snd (update_MediaFile now db i as)) i =
           Inr (Some (let new = fold assign_MediaFile as old in
              if new = old then old else MediaFile_onupdate now old new))"
proof -
  let ?new = "fold assign_MediaFile as old"
  have id: "row_id (MediaFile_onupdate now old ?new) = Some i"
    using by_id_Some_row_id[OF assms(2)]
    by (simp add: MediaFile_onupdate_def fold_assign_MediaFile_row_id)
  show ?thesis
  proof (cases "?new = old")
    case True
    then show ?thesis using assms(1,2)
      by (simp add: update_MediaFile_def get_MediaFile_def Let_def)
  next
    case False
    then show ?thesis using assms by_id_replace_id[OF assms(2) id]
      by (simp add: update_MediaFile_def get_MediaFile_def Let_def)
  qed
qed

lemmas store_defs = insert_MediaFile_def insert_row_def MediaFile_defaults_def
  MediaFile_null_violation_def MediaFile_unique_violation_def taken_def next_rowid_def
  or_default_def create_tables_def no_tables_def create_if_missing_def by_id_def
  get_MediaFile_def update_MediaFile_def MediaFile_update_null_violation_def
  MediaFile_update_unique_violation_def changed_to_null_def changed_to_taken_def
  MediaFile_onupdate_def replace_id_def

lemma db_with_song_eq:
  "db_with_song = (create_tables no_tables)\<lparr>media_files := Some [stored_song]\<rparr>"
  by (simp add: db_with_song_def store_defs song_def stored_song_def)


lemma media_files_db_with_song: "media_files db_with_song = Some [stored_song]"
  by (simp add: db_with_song_eq)

lemma by_id_stored_song: "by_id 1 [stored_song] = Some stored_song"
  by (simp add: by_id_def stored_song_def)

subsection \<open>Inserting a file and reading it back; a second file with the same hash\<close>



subsection \<open>Changing the status of a file\<close>

lemma set_status_eq: "(old\<lparr>mf_status := v\<rparr> = old) \<longleftrightarrow> mf_status old = v"
  by (cases old) auto

text \<open>
  C1, as the code has it. \<^verbatim>\<open>status\<close> is a plain \<^verbatim>\<open>Enum\<close> column: the source declares no
  transition table, no validator and no \<^verbatim>\<open>InvalidTransitionError\<close>. For every stored file
  and every status \<open>s\<close>, whatever the current status is, assigning \<open>s\<close> and committing
  succeeds; the row then has status \<open>s\<close> and all its other columns as before, except
  \<^verbatim>\<open>updated_at\<close>, which takes the time of the commit when the status changed.
\<close>

theorem status_assignment_unchecked:
  assumes "media_files db = Some rows" and "by_id i rows = Some old"
  shows "fst (update_MediaFile now db i [Set_mf_status (Some s)]) = Inr () \<and>
     get_MediaFile (snd (update_MediaFile now db i [Set_mf_status (Some s)])) i =
       Inr (Some (old\<lparr>mf_status := Some s,
         mf_updated_at := (if mf_status old = Some s then mf_updated_at old else Some now)\<rparr>))"
proof -
  let ?as = "[Set_mf_status (Some s)]"
  have nv: "\<not> MediaFile_update_null_violation old (fold assign_MediaFile ?as old)"
    by (simp add: MediaFile_update_null_violation_def changed_to_null_def)
  have uv: "\<not> MediaFile_update_unique_violation rows old (fold assign_MediaFile ?as old)"
    by (simp add: MediaFile_update_unique_violation_def changed_to_taken_def)
  show ?thesis
    using update_MediaFile_ok[OF assms nv uv, of now]
    by (cases old) (auto simp: Let_def MediaFile_onupdate_def set_status_eq)
qed

theorem status_assignment_unchecked_witness:
  "media_files db_with_song = Some [stored_song] \<and> by_id 1 [stored_song] = Some stored_song \<and>
   fst (update_MediaFile 200 db_with_song 1 [Set_mf_status (Some FINGERPRINTING)]) = Inr () \<and>
   get_MediaFile (snd (update_MediaFile 200 db_with_song 1 [Set_mf_status (Some FINGERPRINTING)])) 1 =
     Inr (Some (stored_song\<lparr>mf_status := Some FINGERPRINTING, mf_updated_at := Some 200\<rparr>))"
  using status_assignment_unchecked[OF media_files_db_with_song by_id_stored_song, of 200 FINGERPRINTING]
  by (simp add: media_files_db_with_song by_id_stored_song) (simp add: stored_song_def)

text \<open>
  C1 as stated fails: \<open>PENDING\<close> to \<open>COMPLETED\<close> is not in the transition table of the
  specification, and the store accepts it for the file of the scenario and changes the row.
\<close>

theorem status_change_counterexample:
  "\<not> spec_transition_table PENDING COMPLETED \<and>
   get_MediaFile db_with_song 1 = Inr (Some stored_song) \<and>
   mf_status stored_song = Some PENDING \<and>
   fst (update_MediaFile 200 db_with_song 1 [Set_mf_status (Some COMPLETED)]) = Inr () \<and>
   get_MediaFile (snd (update_MediaFile 200 db_with_song 1 [Set_mf_status (Some COMPLETED)])) 1 =
     Inr (Some (stored_song\<lparr>mf_status := Some COMPLETED, mf_updated_at := Some 200\<rparr>))"
  by (simp add: spec_transition_table_def db_with_song_eq store_defs stored_song_def song_def)

subsection \<open>The range of \<^verbatim>\<open>confidence_score\<close>\<close>





subsection \<open>Deleting a file that has child rows\<close>





lemmas child_defs = insert_Fingerprint_def insert_MediaMetadata_def child_unique_violation_def
  Fingerprint_defaults_def MediaMetadata_defaults_def get_MediaMetadata_def
  update_MediaMetadata_def MediaMetadata_onupdate_def delete_MediaFile_def nullify_def
  nullify_MediaMetadata_def

lemma db_with_children_eq:
  "db_with_children = (create_tables no_tables)\<lparr>media_files := Some [stored_song],
     fingerprints := Some [stored_fingerprint], media_metadata := Some [stored_metadata]\<rparr>"
  by (simp add: db_with_children_def db_with_song_eq store_defs child_defs song_fingerprint_def
      italian_metadata_def blank_metadata_def stored_fingerprint_def stored_metadata_def)






subsection \<open>\<^verbatim>\<open>is_italian\<close> and \<^verbatim>\<open>italian_confidence\<close>\<close>

lemma insert_MediaMetadata_Inr:
  assumes "insert_MediaMetadata now db obj = (Inr i, db')"
  shows "\<exists>rows. media_metadata db = Some rows \<and>
           db' = db\<lparr>media_metadata := Some (rows @ [(MediaMetadata_defaults now obj)\<lparr>row_id := Some i\<rparr>])\<rparr> \<and>
           \<not> taken row_id rows (Some i)"
  using assms
  by (auto simp: insert_MediaMetadata_def child_unique_violation_def
        split: option.splits sum.splits dest!: insert_row_Inr)

lemma insert_MediaMetadata_stored:
  assumes "insert_MediaMetadata now db obj = (Inr i, db')"
  shows "get_MediaMetadata db' i = Inr (Some ((MediaMetadata_defaults now obj)\<lparr>row_id := Some i\<rparr>))"
proof -
  from insert_MediaMetadata_Inr[OF assms] obtain rows where
    r: "media_metadata db = Some rows"
    "db' = db\<lparr>media_metadata := Some (rows @ [(MediaMetadata_defaults now obj)\<lparr>row_id := Some i\<rparr>])\<rparr>"
    "\<not> taken row_id rows (Some i)" by blast
  show ?thesis using r by (simp add: get_MediaMetadata_def by_id_append_new)
qed

lemma insert_MediaMetadata_ignores_italian:
  "fst (insert_MediaMetadata now db (obj\<lparr>md_is_italian := a, md_italian_confidence := c\<rparr>)) =
   fst (insert_MediaMetadata now db obj)"
  by (simp add: insert_MediaMetadata_def insert_row_def MediaMetadata_defaults_def
      child_unique_violation_def Let_def split: option.splits)

lemma set_italian_confidence_eq:
  "(old\<lparr>md_italian_confidence := v\<rparr> = old) \<longleftrightarrow> md_italian_confidence old = v"
  by (cases old) auto

lemma update_italian_confidence:
  assumes "media_metadata db = Some rows" and "by_id i rows = Some old"
  shows "fst (update_MediaMetadata now db i [Set_md_italian_confidence v]) = Inr () \<and>
     get_MediaMetadata (snd (update_MediaMetadata now db i [Set_md_italian_confidence v])) i =
       Inr (Some (old\<lparr>md_italian_confidence := v,
         md_updated_at := (if md_italian_confidence old = v then md_updated_at old else Some now)\<rparr>))"
proof (cases "md_italian_confidence old = v")
  case True
  then have "old\<lparr>md_italian_confidence := v\<rparr> = old" by (simp add: set_italian_confidence_eq)
  moreover have "old\<lparr>md_italian_confidence := v, md_updated_at := md_updated_at old\<rparr> = old"
    using True by (cases old) auto
  ultimately show ?thesis using assms True
    by (simp add: update_MediaMetadata_def get_MediaMetadata_def)
next
  case False
  then have ne: "old\<lparr>md_italian_confidence := v\<rparr> \<noteq> old" by (simp add: set_italian_confidence_eq)
  have id: "row_id (MediaMetadata_onupdate now old (old\<lparr>md_italian_confidence := v\<rparr>)) = Some i"
    using by_id_Some_row_id[OF assms(2)] by (simp add: MediaMetadata_onupdate_def)
  show ?thesis using assms False ne by_id_replace_id[OF assms(2) id]
    by (simp add: update_MediaMetadata_def get_MediaMetadata_def changed_to_taken_def)
       (simp add: MediaMetadata_onupdate_def)
qed

text \<open>
  C8, as the code has it. \<^verbatim>\<open>is_italian\<close> is \<^verbatim>\<open>Column(Boolean, default=False)\<close> and
  \<^verbatim>\<open>italian_confidence\<close> is \<^verbatim>\<open>Column(Float, default=0.0)\<close>, with no constraint between
  them. A row inserted with \<^verbatim>\<open>is_italian=True\<close> and a confidence \<open>c\<close> (0.92, say) reads back
  with both values; inserted with a null confidence it is stored with the default 0.0, so a
  row as inserted never has a null confidence. Whether an insert succeeds does not depend on
  the two columns at all. The store does not keep the invariant later: on every stored row,
  assigning \<^verbatim>\<open>None\<close> to \<^verbatim>\<open>italian_confidence\<close> and committing succeeds and leaves
  \<^verbatim>\<open>is_italian\<close> as it was.
\<close>

theorem italian_confidence_roundtrip_and_unchecked:
  "(insert_MediaMetadata now db obj = (Inr i, db') \<and> md_is_italian obj = Some True \<longrightarrow>
      (\<exists>r. get_MediaMetadata db' i = Inr (Some r) \<and> md_is_italian r = Some True \<and>
            md_italian_confidence r =
              (case md_italian_confidence obj of None \<Rightarrow> Some 0 | Some c \<Rightarrow> Some c))) \<and>
   fst (insert_MediaMetadata now db (obj\<lparr>md_is_italian := a, md_italian_confidence := c\<rparr>)) =
     fst (insert_MediaMetadata now db obj) \<and>
   (media_metadata db = Some rows \<and> by_id i rows = Some old \<longrightarrow>
      fst (update_MediaMetadata now db i [Set_md_italian_confidence None]) = Inr () \<and>
      (\<exists>r. get_MediaMetadata (snd (update_MediaMetadata now db i [Set_md_italian_confidence None])) i
              = Inr (Some r) \<and>
            md_is_italian r = md_is_italian old \<and> md_italian_confidence r = None))"
proof -
  have 1: "\<exists>r. get_MediaMetadata db' i = Inr (Some r) \<and> md_is_italian r = Some True \<and>
            md_italian_confidence r =
              (case md_italian_confidence obj of None \<Rightarrow> Some 0 | Some c \<Rightarrow> Some c)"
    if "insert_MediaMetadata now db obj = (Inr i, db')" and "md_is_italian obj = Some True"
    using insert_MediaMetadata_stored[OF that(1)] that(2)
    by (simp add: MediaMetadata_defaults_def or_default_def)
  have 3: "fst (update_MediaMetadata now db i [Set_md_italian_confidence None]) = Inr () \<and>
      (\<exists>r. get_MediaMetadata (snd (update_MediaMetadata now db i [Set_md_italian_confidence None])) i
              = Inr (Some r) \<and>
            md_is_italian r = md_is_italian old \<and> md_italian_confidence r = None)"
    if "media_metadata db = Some rows" and "by_id i rows = Some old"
    using update_italian_confidence[OF that, of now None] by simp
  show ?thesis using 1 3 insert_MediaMetadata_ignores_italian by blast
qed

lemma media_metadata_db_with_children: "media_metadata db_with_children = Some [stored_metadata]"
  by (simp add: db_with_children_eq)

lemma by_id_stored_metadata: "by_id 1 [stored_metadata] = Some stored_metadata"
  by (simp add: by_id_def stored_metadata_def)

theorem italian_confidence_roundtrip_and_unchecked_witness:
  "insert_MediaMetadata 120 (snd (insert_Fingerprint 110 db_with_song song_fingerprint))
      (italian_metadata (Some (92 / 100))) = (Inr 1, db_with_children) \<and>
   md_is_italian (italian_metadata (Some (92 / 100))) = Some True \<and>
   md_italian_confidence (italian_metadata (Some (92 / 100))) = Some (92 / 100) \<and>
   (\<exists>r. get_MediaMetadata db_with_children 1 = Inr (Some r) \<and> md_is_italian r = Some True \<and>
         md_italian_confidence r = Some (92 / 100)) \<and>
   media_metadata db_with_children = Some [stored_metadata] \<and>
   by_id 1 [stored_metadata] = Some stored_metadata \<and>
   fst (update_MediaMetadata 300 db_with_children 1 [Set_md_italian_confidence None]) = Inr ()"
proof -
  have ins: "insert_MediaMetadata 120 (snd (insert_Fingerprint 110 db_with_song song_fingerprint))
      (italian_metadata (Some (92 / 100))) = (Inr 1, db_with_children)"
    by (simp add: db_with_children_def db_with_song_eq store_defs child_defs song_fingerprint_def
      italian_metadata_def blank_metadata_def)
  have it: "md_is_italian (italian_metadata (Some (92 / 100))) = Some True"
    "md_italian_confidence (italian_metadata (Some (92 / 100))) = Some (92 / 100)"
    by (simp_all add: italian_metadata_def)
  from italian_confidence_roundtrip_and_unchecked[of 120
      "snd (insert_Fingerprint 110 db_with_song song_fingerprint)"
      "italian_metadata (Some (92 / 100))" 1 db_with_children] ins it
  have a: "\<exists>r. get_MediaMetadata db_with_children 1 = Inr (Some r) \<and> md_is_italian r = Some True \<and>
         md_italian_confidence r = Some (92 / 100)" by simp
  from italian_confidence_roundtrip_and_unchecked[of 300 db_with_children _ 1 _ _ _
      "[stored_metadata]" stored_metadata]
    media_metadata_db_with_children by_id_stored_metadata
  have b: "fst (update_MediaMetadata 300 db_with_children 1 [Set_md_italian_confidence None]) = Inr ()"
    by blast
  show ?thesis using ins it a b media_metadata_db_with_children by_id_stored_metadata by blast
qed

text \<open>
  C8 as stated fails: writing \<^verbatim>\<open>is_italian=True\<close> with a null confidence does not fail (the
  row is stored with 0.0), and the stored row of the scenario, which has
  \<^verbatim>\<open>is_italian=True\<close>, accepts a null confidence by an update.
\<close>

theorem italian_confidence_counterexample:
  "md_is_italian (italian_metadata None) = Some True \<and>
   md_italian_confidence (italian_metadata None) = None \<and>
   fst (insert_MediaMetadata 120 db_with_song (italian_metadata None)) = Inr 1 \<and>
   get_MediaMetadata (snd (insert_MediaMetadata 120 db_with_song (italian_metadata None))) 1 =
     Inr (Some ((italian_metadata (Some 0))\<lparr>row_id := Some 1, md_metadata_quality := Some 0,
            md_created_at := Some 120, md_updated_at := Some 120\<rparr>)) \<and>
   get_MediaMetadata db_with_children 1 = Inr (Some stored_metadata) \<and>
   fst (update_MediaMetadata 300 db_with_children 1 [Set_md_italian_confidence None]) = Inr () \<and>
   get_MediaMetadata (snd (update_MediaMetadata 300 db_with_children 1
       [Set_md_italian_confidence None])) 1 =
     Inr (Some ((italian_metadata None)\<lparr>row_id := Some 1, md_metadata_quality := Some 0,
            md_created_at := Some 120, md_updated_at := Some 300\<rparr>))"
  by (simp add: db_with_children_eq db_with_song_eq store_defs child_defs Let_def
        stored_metadata_def italian_metadata_def blank_metadata_def)

section \<open>Properties of the configuration, the logger and the entry point\<close>

subsection \<open>Auxiliary facts\<close>

lemma path_str_secrets: "path_str ''config/secrets.yaml'' = ''config/secrets.yaml''"
  by (simp add: path_str_def path_root_def)

lemma path_str_config: "path_str ''config/config.yaml'' = ''config/config.yaml''"
  by (simp add: path_str_def path_root_def)

lemma path_str_examples:
  "path_str ''./data/cache'' = ''data/cache''"
  "path_str ''./data/models'' = ''data/models''"
  "path_str ''./data/queue'' = ''data/queue''"
  "path_str ''./logs'' = ''logs''"
  "path_str ''/media/in'' = ''/media/in''"
  "path_str ''/media/out'' = ''/media/out''"
  "path_str ''/etc/organizer.yaml'' = ''/etc/organizer.yaml''"
  "path_str two_line_path = two_line_path"
  by (simp_all add: path_str_def path_root_def two_line_path_def)

lemmas validate_defs = validate_Config_def validate_AppConfig_def validate_PathsConfig_def
  validate_FingerprintingConfig_def validate_AudioFingerprintConfig_def
  validate_VideoFingerprintConfig_def validate_MetadataConfig_def validate_MusicBrainzConfig_def
  validate_TMDBConfig_def validate_MLConfig_def validate_ReviewConfig_def validate_USBConfig_def
  validate_BackupConfig_def model_field_def required_def to_model_def to_str_def to_bool_def
  to_int_def to_float_def checked_def validate_paths_def log_level_pattern_def

lemma validate_example: "validate_Config L example_document = Some (example_config ''key-of-config'')"
  by (simp add: validate_defs example_document_def example_config_def example_paths_def
      default_MetadataConfig_def default_TMDBConfig_def)

lemma map_of_dict_set: "map_of (dict_set k v d) = (map_of d)(k \<mapsto> v)"
  by (induction d) (auto simp: fun_eq_iff)

lemma bind_exn_Inr:
  "bind_exn m f = Inr y \<longleftrightarrow> (\<exists>x. m = Inr x \<and> f x = Inr y)"
  by (cases m) (simp_all add: bind_exn_def)

lemma merge_without_secret:
  assumes "merge_tmdb_api_key secrets cd = Inr m"
    and "\<And>s k. secrets = PDict s \<Longrightarrow> map_of s ''tmdb_api_key'' = Some k \<Longrightarrow> \<not> py_truthy k"
  shows "m = cd"
proof (cases secrets)
  case (PDict s)
  show ?thesis
  proof (cases "map_of s ''tmdb_api_key''")
    case None
    with PDict assms(1) show ?thesis
      by (simp add: merge_tmdb_api_key_def bind_exn_def py_contains_def)
  next
    case (Some k)
    with assms(2) PDict have "\<not> py_truthy k" by blast
    with PDict Some assms(1) show ?thesis
      by (simp add: merge_tmdb_api_key_def bind_exn_def py_contains_def py_getitem_def)
  qed
qed (use assms(1) in \<open>auto simp: merge_tmdb_api_key_def bind_exn_def py_contains_def
      py_getitem_def split: if_splits\<close>)

lemma py_getitem_Inr: "py_getitem c k = Inr v \<longleftrightarrow> (\<exists>d. c = PDict d \<and> map_of d k = Some v)"
  by (cases c) (auto simp: py_getitem_def split: option.splits)

lemma py_setitem_Inr: "py_setitem c k v = Inr c' \<longleftrightarrow> (\<exists>d. c = PDict d \<and> c' = PDict (dict_set k v d))"
  by (cases c) (auto simp: py_setitem_def)

lemma bind_exn_InrD: "bind_exn m f = Inr y \<Longrightarrow> \<exists>x. m = Inr x \<and> f x = Inr y"
  by (simp add: bind_exn_Inr)

lemmas merge_defs = merge_tmdb_api_key_def bind_exn_def py_contains_def py_getitem_def
  py_setitem_def map_of_dict_set document_api_key_def

lemma merge_with_secret:
  assumes "merge_tmdb_api_key (PDict s) cd = Inr m"
    and "map_of s ''tmdb_api_key'' = Some k" and "py_truthy k"
  shows "document_api_key m = Some k"
proof (cases cd)
  case (PDict d)
  show ?thesis
  proof (cases "map_of d ''metadata''")
    case None
    with assms PDict show ?thesis by (auto simp: merge_defs)
  next
    case (Some v)
    show ?thesis
    proof (cases v)
      case md: (PDict mdl)
      show ?thesis
      proof (cases "map_of mdl ''tmdb''")
        case None
        with assms PDict Some md show ?thesis by (auto simp: merge_defs)
      next
        case u: (Some u)
        show ?thesis
        proof (cases u)
          case t: (PDict tl)
          with assms PDict Some md u show ?thesis by (auto simp: merge_defs)
        qed (use assms PDict Some md u in \<open>auto simp: merge_defs\<close>)
      qed
    qed (use assms PDict Some in \<open>auto simp: merge_defs split: if_splits\<close>)
  qed
qed (use assms in \<open>auto simp: merge_defs split: if_splits\<close>)

lemma validate_Config_api_key:
  assumes "validate_Config L d = Some c"
  shows "model_field (to_model (validate_MetadataConfig L)) d ''metadata'' default_MetadataConfig
           = Some (metadata c)"
  using assms by (auto simp: validate_Config_def bind_eq_Some_conv)

lemma validate_MetadataConfig_tmdb:
  assumes "validate_MetadataConfig L md = Some m"
  shows "model_field (to_model (validate_TMDBConfig L)) md ''tmdb'' default_TMDBConfig = Some (tmdb m)"
  using assms by (auto simp: validate_MetadataConfig_def bind_eq_Some_conv)

lemma validate_TMDBConfig_api_key:
  assumes "validate_TMDBConfig L t = Some c"
  shows "model_field to_str t ''api_key'' [] = Some (api_key c)"
  using assms by (auto simp: validate_TMDBConfig_def bind_eq_Some_conv)

lemma api_key_of_document:
  assumes "validate_Config L d = Some c"
  shows "api_key (tmdb (metadata c)) = config_file_api_key d"
proof -
  note m = validate_Config_api_key[OF assms]
  show ?thesis
  proof (cases "map_of d ''metadata''")
    case None
    with m have "metadata c = default_MetadataConfig" by (simp add: model_field_def)
    with None show ?thesis
      by (simp add: config_file_api_key_def default_MetadataConfig_def default_TMDBConfig_def)
  next
    case (Some v)
    with m obtain md where v: "v = PDict md" and md: "validate_MetadataConfig L md = Some (metadata c)"
      by (cases v) (auto simp: model_field_def to_model_def)
    note t = validate_MetadataConfig_tmdb[OF md]
    show ?thesis
    proof (cases "map_of md ''tmdb''")
      case None
      with t have "tmdb (metadata c) = default_TMDBConfig" by (simp add: model_field_def)
      with None Some v show ?thesis
        by (simp add: config_file_api_key_def default_TMDBConfig_def)
    next
      case (Some u)
      with t obtain td where u: "u = PDict td" and td: "validate_TMDBConfig L td = Some (tmdb (metadata c))"
        by (cases u) (auto simp: model_field_def to_model_def)
      from validate_TMDBConfig_api_key[OF td]
      have "(case map_of td ''api_key'' of None \<Rightarrow> Some [] | Some x \<Rightarrow> to_str x)
              = Some (api_key (tmdb (metadata c)))"
        by (simp add: model_field_def)
      then have "api_key (tmdb (metadata c)) =
          (case map_of td ''api_key'' of Some (PStr s) \<Rightarrow> s | _ \<Rightarrow> [])"
        by (auto simp: to_str_def split: option.splits pyval.splits)
      then show ?thesis
        using \<open>map_of d ''metadata'' = Some v\<close> v Some u
        by (simp add: config_file_api_key_def)
    qed
  qed
qed

lemma config_file_api_key_merged:
  assumes "document_api_key (PDict d) = Some k" and "validate_Config L d = Some c"
  shows "PStr (api_key (tmdb (metadata c))) = k"
proof -
  from assms(1) obtain md t where md: "map_of d ''metadata'' = Some (PDict md)"
    and t: "map_of md ''tmdb'' = Some (PDict t)" and k: "map_of t ''api_key'' = Some k"
    by (auto simp: document_api_key_def split: option.splits pyval.splits)
  from validate_Config_api_key[OF assms(2)] md
  have vmd: "validate_MetadataConfig L md = Some (metadata c)"
    by (simp add: model_field_def to_model_def)
  from validate_MetadataConfig_tmdb[OF vmd] t
  have vt: "validate_TMDBConfig L t = Some (tmdb (metadata c))"
    by (simp add: model_field_def to_model_def)
  from validate_TMDBConfig_api_key[OF vt] k show ?thesis
    by (cases k) (simp_all add: model_field_def to_str_def)
qed

lemma Config_init_Inr: "Config_init L v = Inr c \<longleftrightarrow> (\<exists>d. v = PDict d \<and> validate_Config L d = Some c)"
  by (cases v) (auto simp: Config_init_def split: option.splits)

lemma read_yaml_Inr: "read_yaml w p = Inr v \<longleftrightarrow> files w p = Some (YamlDoc v)"
  by (auto simp: read_yaml_def split: option.splits disk_file.splits)

lemma ConfigManager_load_Inr:
  "ConfigManager_load L self w = (Inr c, self', w') \<Longrightarrow> ConfigManager_read L self w = Inr c"
  by (auto simp: ConfigManager_load_def split: sum.splits prod.splits)

lemmas load_defs = ConfigManager_load_def ConfigManager_read_def ConfigManager_init_def
  exists_path_def read_yaml_def Config_init_def create_directories_def mkdir_def bind_st_def
  path_str_secrets path_str_config path_str_examples py_truthy_def load_config_def

lemma read_with_secret:
  "ConfigManager_read L (ConfigManager_init ''/etc/organizer.yaml'') (world_with_secret ''key-A'')
     = Inr (example_config ''key-A'')"
  by (simp add: load_defs world_with_secret_def empty_world_def merge_defs example_document_def
      validate_defs example_config_def example_paths_def
      default_MetadataConfig_def default_TMDBConfig_def)

lemma read_with_secret_B:
  "ConfigManager_read L (ConfigManager_init ''/etc/organizer.yaml'') (world_with_secret ''key-B'')
     = Inr (example_config ''key-B'')"
  by (simp add: load_defs world_with_secret_def empty_world_def merge_defs example_document_def
      validate_defs example_config_def example_paths_def
      default_MetadataConfig_def default_TMDBConfig_def)

lemma read_without_secret:
  "ConfigManager_read L (ConfigManager_init ''config/config.yaml'') world_with_config
     = Inr (example_config ''key-of-config'')"
  by (simp add: load_defs world_with_config_def empty_world_def validate_example bind_exn_def)

lemma create_directories_example:
  "files w ''data/cache'' = None \<Longrightarrow> files w ''data/models'' = None \<Longrightarrow>
   files w ''data/queue'' = None \<Longrightarrow> files w ''logs'' = None \<Longrightarrow>
   create_directories (example_config key) w =
     (Inr (), w\<lparr>dirs := insert ''logs'' (insert ''data/queue'' (insert ''data/models''
        (insert ''data/cache'' (dirs w))))\<rparr>)"
  by (simp add: load_defs example_config_def example_paths_def)

lemma load_with_secret:
  "ConfigManager_load L (ConfigManager_init ''/etc/organizer.yaml'') (world_with_secret ''key-A'') =
     (Inr (example_config ''key-A''),
      (ConfigManager_init ''/etc/organizer.yaml'')\<lparr>config := Some (example_config ''key-A'')\<rparr>,
      (world_with_secret ''key-A'')\<lparr>dirs := {''logs'', ''data/queue'', ''data/models'', ''data/cache''}\<rparr>)"
proof -
  have f: "files (world_with_secret ''key-A'') ''data/cache'' = None"
    "files (world_with_secret ''key-A'') ''data/models'' = None"
    "files (world_with_secret ''key-A'') ''data/queue'' = None"
    "files (world_with_secret ''key-A'') ''logs'' = None"
    "dirs (world_with_secret ''key-A'') = {}"
    by (simp_all add: world_with_secret_def empty_world_def)
  show ?thesis
    by (simp add: ConfigManager_load_def read_with_secret create_directories_example[OF f(1-4)] f(5))
qed

lemma load_config_read_failed:
  "ConfigManager_read L (ConfigManager_init p) w = Inl e \<Longrightarrow>
   load_config L p w = (Inl e, w\<lparr>config_manager := Some (ConfigManager_init p)\<rparr>)"
  by (simp add: load_config_def ConfigManager_load_def)

lemma load_config_read_ok:
  "ConfigManager_read L (ConfigManager_init p) w = Inr c \<Longrightarrow>
   load_config L p w =
     (case fst (create_directories c w) of Inl e \<Rightarrow> Inl e | Inr _ \<Rightarrow> Inr c,
      (snd (create_directories c w))\<lparr>config_manager :=
         Some ((ConfigManager_init p)\<lparr>config := Some c\<rparr>)\<rparr>)"
  by (simp add: load_config_def ConfigManager_load_def split: prod.splits sum.splits)

lemma load_config_Inr:
  assumes "load_config L p w = (Inr c, w')"
  shows "ConfigManager_read L (ConfigManager_init p) w = Inr c \<and>
         fst (create_directories c w) = Inr () \<and>
         w' = (snd (create_directories c w))\<lparr>config_manager :=
                 Some ((ConfigManager_init p)\<lparr>config := Some c\<rparr>)\<rparr>"
proof (cases "ConfigManager_read L (ConfigManager_init p) w")
  case (Inl e)
  with assms show ?thesis by (simp add: load_config_read_failed)
next
  case (Inr c')
  with assms show ?thesis
    by (auto simp: load_config_read_ok split: sum.splits)
qed

lemma init_logger_Inr:
  assumes "init_logger dir lvl rot ret w = (Inr lg, w')"
  shows "logger_manager w' \<noteq> None \<and> lg = handlers w'"
  using assms
  by (auto simp: init_logger_def bind_st_def split: prod.splits sum.splits)

lemma init_logger_Inl:
  assumes "init_logger dir lvl rot ret w = (Inl e, w')"
  shows "logger_manager w' = logger_manager w"
proof -
  have m: "logger_manager (snd (mkdir p w0)) = logger_manager w0" for p w0
    by (simp add: mkdir_def)
  have a: "logger_manager (snd (logger_add h w0)) = logger_manager w0" for h w0
    by (simp add: logger_add_def)
  have "logger_manager (snd (LoggerManager_init dir lvl rot ret z w)) = logger_manager w" for z
    by (simp add: LoggerManager_init_def Let_def bind_st_def logger_remove_def
        setup_console_handler_def setup_file_handlers_def mkdir_def logger_add_def
        split: prod.splits sum.splits)
  from this[of "''zip''"] assms show ?thesis
    by (cases "LoggerManager_init dir lvl rot ret ''zip'' w")
       (auto simp: init_logger_def bind_st_def split: sum.splits)
qed

lemma load_without_secret:
  "ConfigManager_load L (ConfigManager_init ''config/config.yaml'') world_with_config =
     (Inr (example_config ''key-of-config''),
      (ConfigManager_init ''config/config.yaml'')\<lparr>config := Some (example_config ''key-of-config'')\<rparr>,
      world_with_config\<lparr>dirs := {''logs'', ''data/queue'', ''data/models'', ''data/cache''}\<rparr>)"
proof -
  have f: "files world_with_config ''data/cache'' = None"
    "files world_with_config ''data/models'' = None"
    "files world_with_config ''data/queue'' = None"
    "files world_with_config ''logs'' = None"
    "dirs world_with_config = {}"
    by (simp_all add: world_with_config_def empty_world_def)
  show ?thesis
    by (simp add: ConfigManager_load_def read_without_secret create_directories_example[OF f(1-4)] f(5))
qed

lemma ConfigManager_read_cong:
  assumes "files w1 (config_path self) = files w2 (config_path self)"
    and "exists_path w1 (config_path self) = exists_path w2 (config_path self)"
    and "files w1 (secrets_path self) = files w2 (secrets_path self)"
    and "exists_path w1 (secrets_path self) = exists_path w2 (secrets_path self)"
  shows "ConfigManager_read L self w1 = ConfigManager_read L self w2"
proof -
  have "read_yaml w1 (config_path self) = read_yaml w2 (config_path self)"
    "read_yaml w1 (secrets_path self) = read_yaml w2 (secrets_path self)"
    using assms(1,3) by (simp_all add: read_yaml_def)
  with assms(2,4) show ?thesis
    by (simp add: ConfigManager_read_def cong: if_cong)
qed

lemma load_config_secret:
  "fst (load_config L ''/etc/organizer.yaml'' (world_with_secret ''key-A'')) = Inr (example_config ''key-A'')"
  by (simp add: load_config_def load_with_secret)

lemma load_with_secret_B:
  "fst (load_config L ''/etc/organizer.yaml'' (world_with_secret ''key-B'')) = Inr (example_config ''key-B'')"
proof -
  have f: "files (world_with_secret ''key-B'') ''data/cache'' = None"
    "files (world_with_secret ''key-B'') ''data/models'' = None"
    "files (world_with_secret ''key-B'') ''data/queue'' = None"
    "files (world_with_secret ''key-B'') ''logs'' = None"
    by (simp_all add: world_with_secret_def empty_world_def)
  show ?thesis
    by (simp add: load_config_def ConfigManager_load_def read_with_secret_B
        create_directories_example[OF f(1-4)])
qed

lemma keepsD: "keeps g m \<Longrightarrow> g (snd (m w)) = g w"
  by (simp add: keeps_def)

lemma keeps_bind_st:
  assumes "keeps g m" and "\<And>x. keeps g (f x)"
  shows "keeps g (bind_st m f)"
  unfolding keeps_def
proof
  fix w
  show "g (snd (bind_st m f w)) = g w"
  proof (cases "m w")
    case (Pair r w')
    with assms(1) have w': "g w' = g w" by (metis keepsD snd_conv)
    show ?thesis
    proof (cases r)
      case (Inl e)
      with Pair w' show ?thesis by (simp add: bind_st_def)
    next
      case (Inr x)
      with Pair w' assms(2)[of x] show ?thesis by (simp add: bind_st_def keeps_def)
    qed
  qed
qed

lemma keeps_stderr_basic:
  "keeps stderr (mkdir p)" "keeps stderr (print l)" "keeps stderr (emit lvl msg au)"
  "keeps stderr (info msg)" "keeps stderr (warning msg)"
  "keeps stderr (logger_add h)" "keeps stderr logger_remove" "keeps stderr (init_database q)"
  by (simp_all add: keeps_def mkdir_def print_def emit_def info_def warning_def logger_add_def
      logger_remove_def init_database_def)

lemma keeps_stderr_mkdirs: "keeps stderr (mkdirs ps)"
proof (induction ps)
  case Nil
  show ?case by (simp add: keeps_def)
next
  case (Cons p ps)
  have "mkdirs (p # ps) = bind_st (mkdir p) (\<lambda>_. mkdirs ps)" by (rule ext) simp
  then show ?case using Cons by (simp add: keeps_bind_st keeps_stderr_basic)
qed

lemma keeps_stderr_load_config: "keeps stderr (load_config L p)"
  unfolding keeps_def
proof
  fix w
  show "stderr (snd (load_config L p w)) = stderr w"
  proof (cases "ConfigManager_read L (ConfigManager_init p) w")
    case (Inl e)
    then show ?thesis by (simp add: load_config_read_failed)
  next
    case (Inr c)
    have "stderr (snd (create_directories c w)) = stderr w"
      unfolding create_directories_def by (rule keepsD[OF keeps_stderr_mkdirs])
    with Inr show ?thesis
      by (simp add: load_config_read_ok)
  qed
qed

lemma keeps_stderr_init_logger: "keeps stderr (init_logger dir lvl rot ret)"
  unfolding init_logger_def LoggerManager_init_def Let_def setup_console_handler_def
    setup_file_handlers_def
  by (intro keeps_bind_st keeps_stderr_basic) (simp_all add: keeps_def)

lemma keeps_stderr_ensure_folder: "keeps stderr (ensure_folder a b p)"
proof -
  have "keeps stderr (bind_st (warning (a @ path_str p)) (\<lambda>_. bind_st (info b) (\<lambda>_. mkdir p)))"
    by (intro keeps_bind_st keeps_stderr_basic)
  then show ?thesis by (simp add: keeps_def ensure_folder_def)
qed

lemma keeps_stderr_run: "keeps stderr (run self)"
  unfolding run_def shutdown_def by (intro keeps_bind_st keeps_stderr_basic)

lemma keeps_stderr_MediaOrganizer_init: "keeps stderr (MediaOrganizer_init L p)"
  unfolding MediaOrganizer_init_def validate_paths_exist_def
  by (intro keeps_bind_st keeps_stderr_basic keeps_stderr_load_config keeps_stderr_init_logger
      keeps_stderr_ensure_folder) (simp_all add: keeps_def)

lemma keeps_stderr_main_body: "keeps stderr (main_body L a)"
proof (cases "arg_init_db a")
  case True
  then have "main_body L a = bind_st (print ''Initializing database...'') (\<lambda>_.
           bind_st (load_config L (arg_config a)) (\<lambda>c.
           bind_st (init_database (database (paths c))) (\<lambda>_.
           print (''Database initialized: '' @ database (paths c)))))"
    by (simp add: main_body_def)
  then show ?thesis
    by (simp only:) (intro keeps_bind_st keeps_stderr_basic keeps_stderr_load_config)
next
  case False
  then have "main_body L a = bind_st (MediaOrganizer_init L (arg_config a)) run"
    by (simp add: main_body_def)
  then show ?thesis
    by (simp only:) (intro keeps_bind_st keeps_stderr_MediaOrganizer_init keeps_stderr_run)
qed

lemma main_eq:
  "main L a w =
     (case fst (main_body L a w) of
        Inr _ \<Rightarrow> (0, snd (main_body L a w))
      | Inl e \<Rightarrow> (1, (snd (main_body L a w))\<lparr>stderr := stderr w @ [(handler_prefix e, e)]\<rparr>))"
proof (cases "main_body L a w")
  case (Pair r w')
  with keepsD[OF keeps_stderr_main_body, of L a w] have "stderr w' = stderr w" by simp
  with Pair show ?thesis by (cases r) (simp_all add: main_def)
qed

lemma ConfigManager_read_stdout:
  "ConfigManager_read L self (w\<lparr>stdout := s\<rparr>) = ConfigManager_read L self w"
  by (rule ConfigManager_read_cong) (simp_all add: exists_path_def)

lemma main_body_read_failed:
  assumes "ConfigManager_read L (ConfigManager_init (arg_config a)) w = Inl e"
  shows "fst (main_body L a w) = Inl e"
proof (cases "arg_init_db a")
  case True
  from assms have "ConfigManager_read L (ConfigManager_init (arg_config a))
      (w\<lparr>stdout := stdout w @ [''Initializing database...'']\<rparr>) = Inl e"
    by (simp add: ConfigManager_read_stdout)
  from load_config_read_failed[OF this] True show ?thesis
    by (simp add: main_body_def bind_st_def print_def)
next
  case False
  with load_config_read_failed[OF assms] show ?thesis
    by (simp add: main_body_def bind_st_def MediaOrganizer_init_def)
qed

lemma read_missing:
  "\<not> exists_path w (path_str p) \<Longrightarrow>
   ConfigManager_read L (ConfigManager_init p) w =
     Inl (FileNotFoundError (''Configuration file not found: '' @ path_str p))"
  by (simp add: ConfigManager_read_def ConfigManager_init_def)

lemma line_breaks_append: "line_breaks (s @ t) = line_breaks s + line_breaks t"
  by (simp add: line_breaks_def)

lemma line_breaks_prefix: "line_breaks (handler_prefix e) = 0"
  by (cases e) (simp_all add: handler_prefix_def line_breaks_def)

lemma mkdir_files: "files (snd (mkdir p w)) = files w"
  by (simp add: mkdir_def)

lemma mkdirs_files: "files (snd (mkdirs ps w)) = files w"
  by (induction ps arbitrary: w) (simp_all add: bind_st_def mkdir_def split: prod.splits sum.splits)

lemma mkdirs_fst:
  "fst (mkdirs ps w) =
     (if list_ex (\<lambda>p. files w (path_str p) \<noteq> None) ps then Inl FileExistsError else Inr ())"
  by (induction ps arbitrary: w) (auto simp: bind_st_def mkdir_def)

lemma mkdirs_snd:
  "fst (mkdirs ps w) = Inr () \<Longrightarrow> snd (mkdirs ps w) = w\<lparr>dirs := dirs w \<union> path_str ` set ps\<rparr>"
proof (induction ps arbitrary: w)
  case Nil
  then show ?case by simp
next
  case (Cons p ps)
  from Cons.prems have f: "files w (path_str p) = None"
    by (auto simp: bind_st_def mkdir_def split: if_splits)
  let ?w = "w\<lparr>dirs := insert (path_str p) (dirs w)\<rparr>"
  from Cons.prems f have "fst (mkdirs ps ?w) = Inr ()"
    by (simp add: bind_st_def mkdir_def)
  from Cons.IH[OF this] f show ?case
    by (simp add: bind_st_def mkdir_def)
qed

lemma load_config_ok_world:
  assumes "load_config L p w = (Inr c, w1)"
  shows "w1 = w\<lparr>dirs := dirs w \<union> path_str ` set (folders c),
                 config_manager := Some ((ConfigManager_init p)\<lparr>config := Some c\<rparr>)\<rparr>"
proof -
  from load_config_Inr[OF assms] have ok: "fst (mkdirs (folders c) w) = Inr ()"
    and w1: "w1 = (snd (mkdirs (folders c) w))\<lparr>config_manager :=
                 Some ((ConfigManager_init p)\<lparr>config := Some c\<rparr>)\<rparr>"
    by (simp_all add: create_directories_def folders_def)
  show ?thesis unfolding w1 mkdirs_snd[OF ok] by simp
qed

lemma load_config_ok_stdout:
  assumes "load_config L p w = (Inr c, w1)"
  shows "load_config L p (w\<lparr>stdout := s\<rparr>) = (Inr c, w1\<lparr>stdout := s\<rparr>)"
proof -
  from load_config_Inr[OF assms] have rd: "ConfigManager_read L (ConfigManager_init p) w = Inr c"
    and mk: "fst (mkdirs (folders c) w) = Inr ()"
    by (simp_all add: create_directories_def folders_def)
  have rd': "ConfigManager_read L (ConfigManager_init p) (w\<lparr>stdout := s\<rparr>) = Inr c"
    using rd by (simp add: ConfigManager_read_stdout)
  have mk': "fst (mkdirs (folders c) (w\<lparr>stdout := s\<rparr>)) = Inr ()"
    using mk by (simp add: mkdirs_fst)
  have "load_config L p (w\<lparr>stdout := s\<rparr>) =
      (Inr c, (w\<lparr>stdout := s\<rparr>)\<lparr>dirs := dirs w \<union> path_str ` set (folders c),
         config_manager := Some ((ConfigManager_init p)\<lparr>config := Some c\<rparr>)\<rparr>)"
    using load_config_read_ok[OF rd'] mk' mkdirs_snd[OF mk']
    by (simp add: create_directories_def folders_def)
  then show ?thesis
    unfolding load_config_ok_world[OF assms] by (cases w) simp
qed

lemma main_init_db:
  assumes "arg_init_db a" and "load_config L (arg_config a) w = (Inr c, w1)"
    and "database (paths c) \<notin> unopenable w"
  shows "main L a w = (0, after_init_db (arg_config a) c w)"
proof -
  note w1 = load_config_ok_world[OF assms(2)]
  have u: "database (paths c) \<notin> unopenable (w1\<lparr>stdout := stdout w @ [''Initializing database...'']\<rparr>)"
    using assms(3) unfolding w1 by simp
  have "main_body L a w =
      bind_st (init_database (database (paths c))) (\<lambda>_.
           print (''Database initialized: '' @ database (paths c)))
        (w1\<lparr>stdout := stdout w @ [''Initializing database...'']\<rparr>)"
    using assms(1)
    by (simp add: main_body_def bind_st_def print_def load_config_ok_stdout[OF assms(2)])
  also have "\<dots> = (Inr (), after_init_db (arg_config a) c w)"
    using u unfolding w1
    by (cases w) (simp add: bind_st_def init_database_def print_def after_init_db_def)
  finally show ?thesis by (simp add: main_def)
qed



lemma name_if_present_eq: "name_if_present n t = [] \<longleftrightarrow> t = None"
  "name_if_present n t = [n] \<longleftrightarrow> t \<noteq> None"
  by (cases t; simp add: name_if_present_def)+




lemma init_logger_example:
  "fst (init_logger ''./logs'' ''INFO'' ''10 MB'' ''1 week'' empty_world) = Inr example_handlers"
  by (simp add: init_logger_def LoggerManager_init_def Let_def bind_st_def mkdir_def
      logger_remove_def setup_console_handler_def setup_file_handlers_def logger_add_def
      loguru_levels_def file_handler_def path_child_def path_str_examples empty_world_def
      example_handlers_def)

lemma load_config_example:
  "load_config L ''config/config.yaml'' world_with_config =
     (Inr (example_config ''key-of-config''),
      world_with_config\<lparr>dirs := {''logs'', ''data/queue'', ''data/models'', ''data/cache''},
        config_manager := Some ((ConfigManager_init ''config/config.yaml'')
           \<lparr>config := Some (example_config ''key-of-config'')\<rparr>)\<rparr>)"
  by (simp add: load_config_def load_without_secret)

lemma read_placeholder:
  "ConfigManager_read L (ConfigManager_init ''config/config.yaml'') placeholder_world =
     Inl ValidationError"
  by (simp add: load_defs placeholder_world_def empty_world_def bind_exn_def
      placeholder_document_def validate_defs)

lemma main_init_db_example:
  "main L init_db_args world_with_config =
     (0, after_init_db ''config/config.yaml'' (example_config ''key-of-config'') world_with_config)"
proof -
  have a: "arg_init_db init_db_args" "arg_config init_db_args = ''config/config.yaml''"
    by (simp_all add: init_db_args_def)
  have u: "database (paths (example_config ''key-of-config'')) \<notin> unopenable world_with_config"
    by (simp add: world_with_config_def empty_world_def)
  from main_init_db[OF a(1) load_config_example[of L, folded a(2)] u] show ?thesis
    by (simp add: a(2))
qed

subsection \<open>The secrets file and the API key\<close>

text \<open>
  C6. Whenever \<^verbatim>\<open>ConfigManager.load\<close> returns a configuration: if the secrets file is a
  mapping with a true (present and not empty) value under \<^verbatim>\<open>tmdb_api_key\<close>, then
  \<^verbatim>\<open>metadata.tmdb.api_key\<close> of the loaded configuration is that value, whatever the main
  file held; and if there is no such secret (no secrets file, no key, or an empty value),
  the loaded configuration is the validated main document itself, so its
  \<^verbatim>\<open>metadata.tmdb.api_key\<close> is the one of the main file (or the default). The main file's
  value never replaces a secret.
\<close>

theorem secret_replaces_config_api_key:
  assumes "ConfigManager_load L self w = (Inr c, self', w')"
  shows "(provided_secret w (secrets_path self) = Some k \<longrightarrow>
            PStr (api_key (tmdb (metadata c))) = k) \<and>
         (provided_secret w (secrets_path self) = None \<longrightarrow>
            (\<exists>d. files w (config_path self) = Some (YamlDoc (PDict d)) \<and>
                 validate_Config L d = Some c \<and>
                 api_key (tmdb (metadata c)) = config_file_api_key d))"
proof -
  note rd = ConfigManager_load_Inr[OF assms]
  have "exists_path w (config_path self)"
    using rd by (auto simp: ConfigManager_read_def split: if_splits)
  with rd have "bind_exn (read_yaml w (config_path self)) (\<lambda>config_dict.
        bind_exn (if exists_path w (secrets_path self)
                  then bind_exn (read_yaml w (secrets_path self)) (\<lambda>loaded.
                         merge_tmdb_api_key (if py_truthy loaded then loaded else PDict [])
                           config_dict)
                  else Inr config_dict) (Config_init L)) = Inr c"
    by (simp add: ConfigManager_read_def)
  from bind_exn_InrD[OF this] obtain cd where cd0: "read_yaml w (config_path self) = Inr cd"
    and rest: "bind_exn (if exists_path w (secrets_path self)
                  then bind_exn (read_yaml w (secrets_path self)) (\<lambda>loaded.
                         merge_tmdb_api_key (if py_truthy loaded then loaded else PDict []) cd)
                  else Inr cd) (Config_init L) = Inr c"
    by blast
  from cd0 have cd: "files w (config_path self) = Some (YamlDoc cd)"
    by (simp add: read_yaml_Inr)
  from bind_exn_InrD[OF rest] obtain merged where
    merged: "(if exists_path w (secrets_path self)
                  then bind_exn (read_yaml w (secrets_path self)) (\<lambda>loaded.
                         merge_tmdb_api_key (if py_truthy loaded then loaded else PDict []) cd)
                  else Inr cd) = Inr merged"
    and init: "Config_init L merged = Inr c"
    by blast
  from init obtain d where d: "merged = PDict d" "validate_Config L d = Some c"
    by (auto simp: Config_init_Inr)
  have 1: "PStr (api_key (tmdb (metadata c))) = k" if "provided_secret w (secrets_path self) = Some k"
  proof -
    from that obtain s where s: "files w (secrets_path self) = Some (YamlDoc (PDict s))"
      "map_of s ''tmdb_api_key'' = Some k" "py_truthy k"
      by (auto simp: provided_secret_def split: option.splits disk_file.splits pyval.splits if_splits)
    then have "s \<noteq> []" by auto
    with s merged have "merge_tmdb_api_key (PDict s) cd = Inr merged"
      by (auto simp: exists_path_def bind_exn_Inr read_yaml_Inr py_truthy_def)
    from merge_with_secret[OF this s(2,3)] d show ?thesis
      by (auto intro: config_file_api_key_merged)
  qed
  have 2: "\<exists>d. files w (config_path self) = Some (YamlDoc (PDict d)) \<and>
                 validate_Config L d = Some c \<and>
                 api_key (tmdb (metadata c)) = config_file_api_key d"
    if none: "provided_secret w (secrets_path self) = None"
  proof -
    have "merged = cd"
    proof (cases "exists_path w (secrets_path self)")
      case False
      with merged show ?thesis by simp
    next
      case True
      with merged obtain loaded where l: "files w (secrets_path self) = Some (YamlDoc loaded)"
        and m: "merge_tmdb_api_key (if py_truthy loaded then loaded else PDict []) cd = Inr merged"
        by (auto simp: bind_exn_Inr read_yaml_Inr)
      show ?thesis
      proof (rule merge_without_secret[OF m])
        fix s k
        assume a: "(if py_truthy loaded then loaded else PDict []) = PDict s"
          and b: "map_of s ''tmdb_api_key'' = Some k"
        then have "loaded = PDict s" by (auto split: if_splits)
        with none l b show "\<not> py_truthy k"
          by (auto simp: provided_secret_def)
      qed
    qed
    with cd d api_key_of_document[OF d(2)] show ?thesis by auto
  qed
  show ?thesis using 1 2 by blast
qed

theorem secret_replaces_config_api_key_witness:
  "ConfigManager_load strict (ConfigManager_init ''/etc/organizer.yaml'') (world_with_secret ''key-A'') =
     (Inr (example_config ''key-A''),
      (ConfigManager_init ''/etc/organizer.yaml'')\<lparr>config := Some (example_config ''key-A'')\<rparr>,
      (world_with_secret ''key-A'')\<lparr>dirs := {''logs'', ''data/queue'', ''data/models'', ''data/cache''}\<rparr>) \<and>
   provided_secret (world_with_secret ''key-A'')
     (secrets_path (ConfigManager_init ''/etc/organizer.yaml'')) = Some (PStr ''key-A'') \<and>
   config_file_api_key example_document = ''key-of-config'' \<and>
   PStr (api_key (tmdb (metadata (example_config ''key-A'')))) = PStr ''key-A'' \<and>
   provided_secret world_with_config
     (secrets_path (ConfigManager_init ''config/config.yaml'')) = None \<and>
   files world_with_config (config_path (ConfigManager_init ''config/config.yaml''))
     = Some (YamlDoc (PDict example_document)) \<and>
   api_key (tmdb (metadata (example_config ''key-of-config''))) = config_file_api_key example_document"
proof -
  have s: "provided_secret (world_with_secret ''key-A'')
     (secrets_path (ConfigManager_init ''/etc/organizer.yaml'')) = Some (PStr ''key-A'')"
    by (simp add: provided_secret_def ConfigManager_init_def path_str_secrets
        world_with_secret_def empty_world_def py_truthy_def)
  have n: "provided_secret world_with_config
     (secrets_path (ConfigManager_init ''config/config.yaml'')) = None"
    by (simp add: provided_secret_def ConfigManager_init_def path_str_secrets
        world_with_config_def empty_world_def)
  have f: "files world_with_config (config_path (ConfigManager_init ''config/config.yaml''))
     = Some (YamlDoc (PDict example_document))"
    by (simp add: ConfigManager_init_def path_str_config world_with_config_def empty_world_def)
  have k: "config_file_api_key example_document = ''key-of-config''"
    by (simp add: config_file_api_key_def example_document_def)
  from secret_replaces_config_api_key[OF load_with_secret[of strict], of "PStr ''key-A''"] s
  have a: "PStr (api_key (tmdb (metadata (example_config ''key-A'')))) = PStr ''key-A''"
    by blast
  from secret_replaces_config_api_key[OF load_without_secret[of strict]] n f
  have b: "api_key (tmdb (metadata (example_config ''key-of-config''))) = config_file_api_key example_document"
    by auto
  show ?thesis using load_with_secret[of strict] s n f k a b by blast
qed

subsection \<open>The path of the secrets file\<close>

text \<open>
  C10. For every \<^verbatim>\<open>config_path\<close> the manager's \<^verbatim>\<open>secrets_path\<close> is
  \<^verbatim>\<open>config/secrets.yaml\<close>, a path relative to the working directory, and what \<^verbatim>\<open>load\<close>
  reads and validates depends on the disk at two paths only: the main file's and that one.
  So two working directories that differ in their \<^verbatim>\<open>config/secrets.yaml\<close> give, for the
  same main file \<^verbatim>\<open>/etc/organizer.yaml\<close>, configurations with different API keys.
\<close>

theorem secrets_path_is_fixed:
  "secrets_path (ConfigManager_init p) = ''config/secrets.yaml'' \<and>
   (files w1 (path_str p) = files w2 (path_str p) \<and>
    (path_str p \<in> dirs w1 \<longleftrightarrow> path_str p \<in> dirs w2) \<and>
    files w1 ''config/secrets.yaml'' = files w2 ''config/secrets.yaml'' \<and>
    (''config/secrets.yaml'' \<in> dirs w1 \<longleftrightarrow> ''config/secrets.yaml'' \<in> dirs w2) \<longrightarrow>
      ConfigManager_read L (ConfigManager_init p) w1 =
      ConfigManager_read L (ConfigManager_init p) w2) \<and>
   files (world_with_secret ''key-A'') ''/etc/organizer.yaml'' =
     files (world_with_secret ''key-B'') ''/etc/organizer.yaml'' \<and>
   fst (load_config L ''/etc/organizer.yaml'' (world_with_secret ''key-A'')) =
     Inr (example_config ''key-A'') \<and>
   fst (load_config L ''/etc/organizer.yaml'' (world_with_secret ''key-B'')) =
     Inr (example_config ''key-B'') \<and>
   api_key (tmdb (metadata (example_config ''key-A''))) \<noteq>
     api_key (tmdb (metadata (example_config ''key-B'')))"
proof -
  have 1: "secrets_path (ConfigManager_init p) = ''config/secrets.yaml''"
    by (simp add: ConfigManager_init_def path_str_secrets)
  have 2: "ConfigManager_read L (ConfigManager_init p) w1 =
      ConfigManager_read L (ConfigManager_init p) w2"
    if "files w1 (path_str p) = files w2 (path_str p) \<and>
    (path_str p \<in> dirs w1 \<longleftrightarrow> path_str p \<in> dirs w2) \<and>
    files w1 ''config/secrets.yaml'' = files w2 ''config/secrets.yaml'' \<and>
    (''config/secrets.yaml'' \<in> dirs w1 \<longleftrightarrow> ''config/secrets.yaml'' \<in> dirs w2)"
    using that
    by (intro ConfigManager_read_cong)
       (simp_all add: ConfigManager_init_def path_str_secrets exists_path_def)
  have 3: "files (world_with_secret ''key-A'') ''/etc/organizer.yaml'' =
     files (world_with_secret ''key-B'') ''/etc/organizer.yaml''"
    by (simp add: world_with_secret_def)
  have 4: "api_key (tmdb (metadata (example_config ''key-A''))) \<noteq>
     api_key (tmdb (metadata (example_config ''key-B'')))"
    by (simp add: example_config_def)
  show ?thesis using 1 2 3 4 load_config_secret load_with_secret_B by blast
qed

theorem secrets_path_is_fixed_witness:
  "files (world_with_secret ''key-A'') (path_str ''/etc/organizer.yaml'') =
     files ((world_with_secret ''key-A'')\<lparr>stdout := [''x'']\<rparr>) (path_str ''/etc/organizer.yaml'') \<and>
   ConfigManager_read strict (ConfigManager_init ''/etc/organizer.yaml'') (world_with_secret ''key-A'') =
     ConfigManager_read strict (ConfigManager_init ''/etc/organizer.yaml'')
       ((world_with_secret ''key-A'')\<lparr>stdout := [''x'']\<rparr>) \<and>
   secrets_path (ConfigManager_init ''/etc/organizer.yaml'') = ''config/secrets.yaml'' \<and>
   secrets_path (ConfigManager_init ''config/config.yaml'') = ''config/secrets.yaml''"
  using secrets_path_is_fixed[of "''/etc/organizer.yaml''" "world_with_secret ''key-A''"
      "(world_with_secret ''key-A'')\<lparr>stdout := [''x'']\<rparr>" strict]
    secrets_path_is_fixed[of "''config/config.yaml''" empty_world empty_world strict]
  by simp

subsection \<open>The global configuration and the global logger\<close>

text \<open>
  C9. \<^verbatim>\<open>get_config\<close> raises \<^verbatim>\<open>RuntimeError\<close> while \<^verbatim>\<open>_config_manager\<close> is \<^verbatim>\<open>None\<close>, and
  also after a \<^verbatim>\<open>load_config\<close> that failed to read or validate the configuration (the
  manager is there, its \<^verbatim>\<open>config\<close> is \<^verbatim>\<open>None\<close>); after a \<^verbatim>\<open>load_config\<close> that returned a
  configuration it returns that configuration. \<^verbatim>\<open>get_logger\<close> and \<^verbatim>\<open>audit_log\<close> raise
  \<^verbatim>\<open>RuntimeError\<close> while \<^verbatim>\<open>_logger_manager\<close> is \<^verbatim>\<open>None\<close>, also after an \<^verbatim>\<open>init_logger\<close>
  that raised; after an \<^verbatim>\<open>init_logger\<close> that returned, \<^verbatim>\<open>get_logger\<close> returns the logger
  that \<^verbatim>\<open>init_logger\<close> returned and \<^verbatim>\<open>audit_log\<close> logs its message as an audit record at
  level \<^verbatim>\<open>INFO\<close>.
\<close>

theorem getters_raise_until_initialised:
  "(config_manager w = None \<longrightarrow>
      get_config w = Inl (RuntimeError ''Configuration not loaded. Call load_config() first.'')) \<and>
   (ConfigManager_read L (ConfigManager_init p) w = Inl e \<longrightarrow>
      fst (load_config L p w) = Inl e \<and>
      get_config (snd (load_config L p w)) =
        Inl (RuntimeError ''Configuration not loaded. Call load() first.'')) \<and>
   (load_config L p w = (Inr c, w') \<longrightarrow> get_config w' = Inr c) \<and>
   (logger_manager w = None \<longrightarrow>
      get_logger w = Inl (RuntimeError ''Logger not initialized. Call init_logger() first.'') \<and>
      audit_log msg w =
        (Inl (RuntimeError ''Logger not initialized. Call init_logger() first.''), w)) \<and>
   (logger_manager w = None \<and> init_logger dir lvl rot ret w = (Inl e', w') \<longrightarrow>
      get_logger w' = Inl (RuntimeError ''Logger not initialized. Call init_logger() first.'')) \<and>
   (init_logger dir lvl rot ret w = (Inr lg, w') \<longrightarrow>
      get_logger w' = Inr lg \<and>
      audit_log msg w' =
        (Inr (), w'\<lparr>emitted := emitted w' @
           [\<lparr>record_level = ''INFO'', record_message = msg, record_audit = True\<rparr>]\<rparr>))"
proof -
  have 1: "get_config (snd (load_config L p w)) =
        Inl (RuntimeError ''Configuration not loaded. Call load() first.'')"
      "fst (load_config L p w) = Inl e"
    if "ConfigManager_read L (ConfigManager_init p) w = Inl e"
    using load_config_read_failed[OF that]
    by (simp_all add: get_config_def ConfigManager_get_def ConfigManager_init_def)
  have 2: "get_config w' = Inr c" if "load_config L p w = (Inr c, w')"
    using load_config_Inr[OF that] by (simp add: get_config_def ConfigManager_get_def)
  have 3: "get_logger w' = Inl (RuntimeError ''Logger not initialized. Call init_logger() first.'')"
    if "logger_manager w = None" "init_logger dir lvl rot ret w = (Inl e', w')"
    using init_logger_Inl[OF that(2)] that(1) by (simp add: get_logger_def)
  have 4: "get_logger w' = Inr lg \<and>
      audit_log msg w' =
        (Inr (), w'\<lparr>emitted := emitted w' @
           [\<lparr>record_level = ''INFO'', record_message = msg, record_audit = True\<rparr>]\<rparr>)"
    if "init_logger dir lvl rot ret w = (Inr lg, w')"
    using init_logger_Inr[OF that]
    by (auto simp: get_logger_def audit_log_def emit_def)
  show ?thesis using 1 2 3 4
    by (auto simp: get_config_def get_logger_def audit_log_def)
qed

theorem getters_raise_until_initialised_witness:
  "config_manager empty_world = None \<and>
   get_config empty_world =
     Inl (RuntimeError ''Configuration not loaded. Call load_config() first.'') \<and>
   logger_manager empty_world = None \<and>
   get_logger empty_world =
     Inl (RuntimeError ''Logger not initialized. Call init_logger() first.'') \<and>
   fst (audit_log ''added'' empty_world) =
     Inl (RuntimeError ''Logger not initialized. Call init_logger() first.'') \<and>
   fst (load_config strict ''config/config.yaml'' world_with_config) =
     Inr (example_config ''key-of-config'') \<and>
   get_config (snd (load_config strict ''config/config.yaml'' world_with_config)) =
     Inr (example_config ''key-of-config'') \<and>
   fst (init_logger ''./logs'' ''INFO'' ''10 MB'' ''1 week'' empty_world) = Inr example_handlers \<and>
   get_logger (snd (init_logger ''./logs'' ''INFO'' ''10 MB'' ''1 week'' empty_world)) =
     Inr example_handlers \<and>
   fst (audit_log ''added'' (snd (init_logger ''./logs'' ''INFO'' ''10 MB'' ''1 week'' empty_world)))
     = Inr ()"
proof -
  have e: "config_manager empty_world = None" "logger_manager empty_world = None"
    by (simp_all add: empty_world_def)
  have l: "load_config strict ''config/config.yaml'' world_with_config =
     (Inr (example_config ''key-of-config''),
      snd (load_config strict ''config/config.yaml'' world_with_config))"
    by (simp add: load_config_example)
  have i: "init_logger ''./logs'' ''INFO'' ''10 MB'' ''1 week'' empty_world =
     (Inr example_handlers, snd (init_logger ''./logs'' ''INFO'' ''10 MB'' ''1 week'' empty_world))"
    using init_logger_example by (metis prod.collapse)
  from getters_raise_until_initialised[of empty_world strict "''config/config.yaml''" _ _ _ "''added''"] e
  have a: "get_config empty_world =
     Inl (RuntimeError ''Configuration not loaded. Call load_config() first.'')"
    "get_logger empty_world =
     Inl (RuntimeError ''Logger not initialized. Call init_logger() first.'')"
    "fst (audit_log ''added'' empty_world) =
     Inl (RuntimeError ''Logger not initialized. Call init_logger() first.'')"
    by simp_all
  from getters_raise_until_initialised[of world_with_config strict "''config/config.yaml''" _
      "example_config ''key-of-config''"
      "snd (load_config strict ''config/config.yaml'' world_with_config)"] l
  have b: "get_config (snd (load_config strict ''config/config.yaml'' world_with_config)) =
     Inr (example_config ''key-of-config'')" by blast
  from getters_raise_until_initialised[of empty_world strict "''config/config.yaml''" _ _
      "snd (init_logger ''./logs'' ''INFO'' ''10 MB'' ''1 week'' empty_world)" "''added''"
      "''./logs''" "''INFO''" "''10 MB''" "''1 week''" _ example_handlers] i
  have c: "get_logger (snd (init_logger ''./logs'' ''INFO'' ''10 MB'' ''1 week'' empty_world)) =
     Inr example_handlers"
   "fst (audit_log ''added'' (snd (init_logger ''./logs'' ''INFO'' ''10 MB'' ''1 week'' empty_world)))
     = Inr ()"
    by simp_all
  have lf: "fst (load_config strict ''config/config.yaml'' world_with_config) =
     Inr (example_config ''key-of-config'')"
    by (simp add: load_config_example)
  show ?thesis using e a b c lf init_logger_example by simp
qed

subsection \<open>The exit code and the message of \<^verbatim>\<open>main\<close>\<close>

lemma main_body_run_example:
  "fst (main_body L run_args world_with_config) = Inr ()"
proof -
  have a: "\<not> arg_init_db run_args" "arg_config run_args = ''config/config.yaml''"
    by (simp_all add: run_args_def)
  show ?thesis
    unfolding main_body_def MediaOrganizer_init_def
    by (simp add: a bind_st_def load_config_example)
       (simp add: example_config_def example_paths_def default_AppConfig_def
          init_logger_def LoggerManager_init_def Let_def bind_st_def mkdir_def
          logger_remove_def setup_console_handler_def setup_file_handlers_def logger_add_def
          loguru_levels_def file_handler_def path_child_def path_str_examples
          world_with_config_def empty_world_def info_def warning_def emit_def
          init_database_def validate_paths_exist_def ensure_folder_def exists_path_def
          run_def shutdown_def)
qed

text \<open>
  C7, as the code has it. \<^verbatim>\<open>main\<close> returns 0 when its \<^verbatim>\<open>try\<close> block ends without an
  exception and prints nothing to standard error then; it returns 1 when the block raises,
  in particular when the configuration file does not exist (\<^verbatim>\<open>FileNotFoundError\<close>) and
  when a configuration value is invalid (pydantic's \<^verbatim>\<open>ValidationError\<close>), and then it
  prints exactly one message to standard error: one of the three prefixes followed by the
  text of the exception. The message is the prefix, the text and one line break, so it is
  one line when the text of the exception has no line break in it.
\<close>

theorem main_exit_codes:
  "(fst (main_body L a w) = Inr () \<longrightarrow>
      fst (main L a w) = 0 \<and> stderr (snd (main L a w)) = stderr w) \<and>
   (fst (main_body L a w) = Inl e \<longrightarrow>
      fst (main L a w) = 1 \<and>
      stderr (snd (main L a w)) = stderr w @ [(handler_prefix e, e)]) \<and>
   (\<not> exists_path w (path_str (arg_config a)) \<longrightarrow>
      fst (main L a w) = 1 \<and>
      stderr (snd (main L a w)) = stderr w @
        [(''Error: '', FileNotFoundError
            (''Configuration file not found: '' @ path_str (arg_config a)))]) \<and>
   (ConfigManager_read L (ConfigManager_init (arg_config a)) w = Inl ValidationError \<longrightarrow>
      fst (main L a w) = 1 \<and>
      stderr (snd (main L a w)) = stderr w @ [(''Configuration error: '', ValidationError)]) \<and>
   handler_prefix e \<in> set [''Error: '', ''Configuration error: '', ''Fatal error: ''] \<and>
   (exn_text e = Some m \<longrightarrow>
      printed_text (handler_prefix e, e) = Some (handler_prefix e @ m @ [CHR 0x0A]) \<and>
      line_breaks (handler_prefix e @ m @ [CHR 0x0A]) = line_breaks m + 1)"
proof -
  have 1: "fst (main L a w) = 0 \<and> stderr (snd (main L a w)) = stderr w"
    if "fst (main_body L a w) = Inr ()"
    using that keepsD[OF keeps_stderr_main_body, of L a w] by (simp add: main_eq)
  have 2: "fst (main L a w) = 1 \<and>
      stderr (snd (main L a w)) = stderr w @ [(handler_prefix e', e')]"
    if "fst (main_body L a w) = Inl e'" for e'
    using that by (simp add: main_eq)
  have 3: "fst (main L a w) = 1 \<and>
      stderr (snd (main L a w)) = stderr w @
        [(''Error: '', FileNotFoundError
            (''Configuration file not found: '' @ path_str (arg_config a)))]"
    if "\<not> exists_path w (path_str (arg_config a))"
    using 2[OF main_body_read_failed[OF read_missing[OF that]]]
    by (simp add: handler_prefix_def)
  have 4: "fst (main L a w) = 1 \<and>
      stderr (snd (main L a w)) = stderr w @ [(''Configuration error: '', ValidationError)]"
    if "ConfigManager_read L (ConfigManager_init (arg_config a)) w = Inl ValidationError"
    using 2[OF main_body_read_failed[OF that]] by (simp add: handler_prefix_def)
  have 5: "handler_prefix e \<in> set [''Error: '', ''Configuration error: '', ''Fatal error: '']"
    by (cases e) (simp_all add: handler_prefix_def)
  have 6: "printed_text (handler_prefix e, e) = Some (handler_prefix e @ m @ [CHR 0x0A]) \<and>
      line_breaks (handler_prefix e @ m @ [CHR 0x0A]) = line_breaks m + 1"
    if "exn_text e = Some m"
    using that by (simp add: printed_text_def line_breaks_append line_breaks_prefix)
      (simp add: line_breaks_def)
  show ?thesis using 1 2 3 4 5 6 by blast
qed

theorem main_exit_codes_witness:
  "fst (main_body strict init_db_args world_with_config) = Inr () \<and>
   fst (main strict init_db_args world_with_config) = 0 \<and>
   stderr (snd (main strict init_db_args world_with_config)) = [] \<and>
   fst (main_body strict run_args world_with_config) = Inr () \<and>
   fst (main strict run_args world_with_config) = 0 \<and>
   stderr (snd (main strict run_args world_with_config)) = [] \<and>
   \<not> exists_path empty_world (path_str (arg_config run_args)) \<and>
   fst (main strict run_args empty_world) = 1 \<and>
   stderr (snd (main strict run_args empty_world)) =
     [(''Error: '', FileNotFoundError ''Configuration file not found: config/config.yaml'')] \<and>
   ConfigManager_read strict (ConfigManager_init (arg_config run_args)) placeholder_world =
     Inl ValidationError \<and>
   fst (main strict run_args placeholder_world) = 1 \<and>
   stderr (snd (main strict run_args placeholder_world)) =
     [(''Configuration error: '', ValidationError)] \<and>
   printed_text (''Error: '', FileNotFoundError ''Configuration file not found: config/config.yaml'')
     = Some (''Error: Configuration file not found: config/config.yaml'' @ [CHR 0x0A])"
proof -
  have r: "arg_config run_args = ''config/config.yaml''" by (simp add: run_args_def)
  have b: "fst (main_body strict init_db_args world_with_config) = Inr ()"
    using main_init_db_example[of strict]
    by (auto simp: main_def split: prod.splits sum.splits)
  have s0: "stderr world_with_config = []" "stderr empty_world = []" "stderr placeholder_world = []"
    by (simp_all add: world_with_config_def empty_world_def placeholder_world_def)
  have m: "\<not> exists_path empty_world (path_str (arg_config run_args))"
    by (simp add: exists_path_def empty_world_def)
  have v: "ConfigManager_read strict (ConfigManager_init (arg_config run_args)) placeholder_world =
     Inl ValidationError"
    by (simp add: r read_placeholder)
  note t1 = main_exit_codes[of strict init_db_args world_with_config
      "FileNotFoundError ''Configuration file not found: config/config.yaml''"
      "''Configuration file not found: config/config.yaml''"]
  note t2 = main_exit_codes[of strict run_args empty_world]
  note t3 = main_exit_codes[of strict run_args placeholder_world]
  from t1 b s0 have 1: "fst (main strict init_db_args world_with_config) = 0"
    "stderr (snd (main strict init_db_args world_with_config)) = []"
    "printed_text (''Error: '', FileNotFoundError ''Configuration file not found: config/config.yaml'')
     = Some (''Error: Configuration file not found: config/config.yaml'' @ [CHR 0x0A])"
    by (simp_all add: exn_text_def handler_prefix_def)
  from main_exit_codes[of strict run_args world_with_config] main_body_run_example[of strict] s0
  have 0: "fst (main strict run_args world_with_config) = 0"
    "stderr (snd (main strict run_args world_with_config)) = []"
    by simp_all
  from t2 m s0 have 2: "fst (main strict run_args empty_world) = 1"
    "stderr (snd (main strict run_args empty_world)) =
     [(''Error: '', FileNotFoundError ''Configuration file not found: config/config.yaml'')]"
    by (simp_all add: r path_str_config)
  from t3 v s0 have 3: "fst (main strict run_args placeholder_world) = 1"
    "stderr (snd (main strict run_args placeholder_world)) =
     [(''Configuration error: '', ValidationError)]"
    by simp_all
  show ?thesis using b m v 0 1 2 3 main_body_run_example[of strict] by simp
qed

text \<open>
  C7 as stated fails in "one-line": for a configuration path with a line break in it and
  no such file, \<^verbatim>\<open>main\<close> returns 1 and the one message it prints takes two lines.
\<close>

theorem main_message_counterexample:
  "fst (main strict \<lparr>arg_config = two_line_path, arg_init_db = False\<rparr> empty_world) = 1 \<and>
   stderr (snd (main strict \<lparr>arg_config = two_line_path, arg_init_db = False\<rparr> empty_world)) =
     [(''Error: '', FileNotFoundError (''Configuration file not found: '' @ two_line_path))] \<and>
   printed_text (''Error: '', FileNotFoundError (''Configuration file not found: '' @ two_line_path)) =
     Some (''Error: Configuration file not found: conf'' @ [CHR 0x0A] @ ''.yaml'' @ [CHR 0x0A]) \<and>
   line_breaks (''Error: Configuration file not found: conf'' @ [CHR 0x0A] @ ''.yaml'' @ [CHR 0x0A]) = 2"
proof -
  have "\<not> exists_path empty_world (path_str two_line_path)"
    by (simp add: exists_path_def empty_world_def)
  from read_missing[OF this, of strict]
  have "ConfigManager_read strict
      (ConfigManager_init (arg_config \<lparr>arg_config = two_line_path, arg_init_db = False\<rparr>))
      empty_world = Inl (FileNotFoundError (''Configuration file not found: '' @ path_str two_line_path))"
    by simp
  from main_body_read_failed[OF this]
  have "fst (main_body strict \<lparr>arg_config = two_line_path, arg_init_db = False\<rparr> empty_world) =
      Inl (FileNotFoundError (''Configuration file not found: '' @ two_line_path))"
    by (simp add: path_str_examples)
  then show ?thesis
    by (simp add: main_eq handler_prefix_def printed_text_def exn_text_def line_breaks_def
        two_line_path_def empty_world_def)
qed

subsection \<open>\<^verbatim>\<open>--init-db\<close>\<close>









end
